theory Spec2Isabelle
  imports Complex_Main
begin

text \<open>
  The log-density rules for censored random variables of PyMC (pymc/logprob/censoring.py):
  the matchers that recognise a clipped or rounded random variable in a graph, and the
  rules that build the log-density graph of the replacement node. Graph building is
  modelled as it is written, as functions returning expression trees; an evaluator gives
  the trees their values, so that a statement about a density is a statement about the
  value of the graph the rule returns.
\<close>

section \<open>Values: numpy floats, tensors, Python errors\<close>

text \<open>
  A tensor entry is a float: a finite number, one of the two infinities, or NaN.
  Finite numbers are reals (every double is one); only comparisons, which IEEE performs
  exactly, and the snapping functions round, floor and ceil, whose results are exact in
  floating point too, are computed on them. Additions, subtractions and the log-space
  primitives are not computed here: their meaning is a parameter of the evaluator.
\<close>

datatype fl = NInf | Fin real | PInf | NaN

definition fl_lt :: "fl \<Rightarrow> fl \<Rightarrow> bool" where
  "fl_lt a b =
     (case a of
        NInf \<Rightarrow> (case b of Fin y \<Rightarrow> True | PInf \<Rightarrow> True | _ \<Rightarrow> False)
      | Fin x \<Rightarrow> (case b of Fin y \<Rightarrow> x < y | PInf \<Rightarrow> True | _ \<Rightarrow> False)
      | _ \<Rightarrow> False)"

definition fl_eq :: "fl \<Rightarrow> fl \<Rightarrow> bool" where
  "fl_eq a b = (a \<noteq> NaN \<and> a = b)"

definition fl_gt :: "fl \<Rightarrow> fl \<Rightarrow> bool" where
  "fl_gt a b = fl_lt b a"

definition fl_le :: "fl \<Rightarrow> fl \<Rightarrow> bool" where
  "fl_le a b = (fl_lt a b \<or> fl_eq a b)"

text \<open>\<^verbatim>\<open>np.isinf\<close> and \<open>np.isneginf\<close>, on one entry.\<close>

definition isinf :: "fl \<Rightarrow> bool" where
  "isinf a = (a = PInf \<or> a = NInf)"

definition isneginf :: "fl \<Rightarrow> bool" where
  "isneginf a = (a = NInf)"

text \<open>Booleans inside tensors are 1 and 0; anything but 0 is true.\<close>

definition of_truth :: "bool \<Rightarrow> fl" where
  "of_truth b = (if b then Fin 1 else Fin 0)"

definition truthy :: "fl \<Rightarrow> bool" where
  "truthy a = (a \<noteq> Fin 0)"

datatype error =
    ValueError
  | IndexError
  | AttributeError
  | TypeError string
  | ShapeError
  | ParameterValueError string
  | CouldNotBeDerived "string option list"

text \<open>\<^verbatim>\<open>str.startswith\<close>.\<close>

definition startswith :: "string \<Rightarrow> string \<Rightarrow> bool" where
  "startswith s p = (take (length p) s = p)"

section \<open>Graph variables and operations\<close>

datatype scalar_op = Clip | RoundHalfToEven | Floor | Ceil | OtherScalarOp string

text \<open>
  The operation of a node. \<open>MeasurableClip\<close> and \<open>MeasurableRound\<close> are the two classes of
  the module, both subclasses of \<open>Elemwise\<close> through \<open>MeasurableElemwise\<close>. \<open>RandomVariable\<close>
  stands for a base distribution, \<open>DimShuffle k\<close> for the operation that puts \<open>k\<close>
  broadcast dimensions in front of its input, \<open>Unmeasurable\<close> for the copy of an operation
  that \<open>assign_custom_measurable_outputs\<close> makes.
\<close>

datatype op =
    Elemwise scalar_op
  | MeasurableClip scalar_op
  | MeasurableRound scalar_op
  | RandomVariable string
  | DimShuffle nat
  | Unmeasurable op
  | OtherOp string

text \<open>
  A variable of the graph. \<open>ident\<close> is the identity of the Python object: \<open>is\<close> and the
  keys of \<open>rv_values\<close> compare it; \<open>ndim\<close> is its rank. A \<open>TensorConstant\<close> carries its
  data, flattened; a \<open>TensorVariable\<close> the node that produced it (its operation and
  inputs), if any.
\<close>

datatype var =
    TensorVariable (ident: nat) (name: "string option") (dtype: string) (ndim: nat)
      (owner_field: "(op \<times> var list) option")
  | TensorConstant (ident: nat) (name: "string option") (dtype: string) (ndim: nat)
      (data: "fl list")

definition owner :: "var \<Rightarrow> (op \<times> var list) option" where
  "owner v = (case v of TensorVariable i n d r ow \<Rightarrow> ow | TensorConstant i n d r xs \<Rightarrow> None)"

definition is_TensorConstant :: "var \<Rightarrow> bool" where
  "is_TensorConstant v = (case v of TensorConstant i n d r xs \<Rightarrow> True | _ \<Rightarrow> False)"

definition const_value :: "var \<Rightarrow> fl list" where
  "const_value v = (case v of TensorConstant i n d r xs \<Rightarrow> xs | _ \<Rightarrow> [])"

definition same_object :: "var \<Rightarrow> var \<Rightarrow> bool" where
  "same_object a b = (ident a = ident b)"

section \<open>Log-density expressions\<close>

text \<open>
  The graph a log-density rule builds. \<open>Logprob\<close> and \<open>Logcdf\<close> are the results of the
  dispatch \<open>_logprob\<close> and \<open>_logcdf\<close> on the base operation, its inputs and a value
  expression; \<open>Logdiffexp\<close> is \<open>pymc.math.logdiffexp\<close>; the others are the \<open>aesara.tensor\<close>
  functions of the same names. \<open>Lit\<close> is a Python number used as an operand. The labels
  (\<open>.name\<close>) the rules give the intermediate nodes do not change a value and are left
  out.
\<close>

datatype expr =
    Leaf var
  | Lit fl
  | Eq expr expr
  | Gt expr expr
  | Lt expr expr
  | Le expr expr
  | Switch expr expr expr
  | All expr
  | Log1mexp expr
  | Logaddexp expr expr
  | Logdiffexp expr expr
  | RoundE expr
  | FloorE expr
  | CeilE expr
  | Add expr expr
  | Sub expr expr
  | Logprob op "var list" expr
  | Logcdf op "var list" expr
  | CheckParameterValue string expr expr

subsection \<open>Evaluation\<close>

text \<open>
  The meaning of what the module only calls: the log-probability and log-CDF of the base
  distribution (the dispatch on its operation, at fixed parameters), the log-space
  primitives, and floating-point addition and subtraction.
\<close>

record sem =
  logprob_sem :: "op \<Rightarrow> var list \<Rightarrow> fl \<Rightarrow> fl"
  logcdf_sem :: "op \<Rightarrow> var list \<Rightarrow> fl \<Rightarrow> fl"
  log1mexp_sem :: "fl \<Rightarrow> fl"
  logaddexp_sem :: "fl \<Rightarrow> fl \<Rightarrow> fl"
  logdiffexp_sem :: "fl \<Rightarrow> fl \<Rightarrow> fl"
  add_sem :: "fl \<Rightarrow> fl \<Rightarrow> fl"
  sub_sem :: "fl \<Rightarrow> fl \<Rightarrow> fl"

text \<open>Round half to even, floor and ceil of a float: exact, and the identity off the finite numbers.\<close>

definition round_half_even :: "real \<Rightarrow> real" where
  "round_half_even r =
     (let f = \<lfloor>r\<rfloor>; d = r - of_int f in
      if d < 1 / 2 then of_int f
      else if 1 / 2 < d then of_int (f + 1)
      else if even f then of_int f else of_int (f + 1))"

definition fl_round :: "fl \<Rightarrow> fl" where
  "fl_round a = (case a of Fin r \<Rightarrow> Fin (round_half_even r) | _ \<Rightarrow> a)"

definition fl_floor :: "fl \<Rightarrow> fl" where
  "fl_floor a = (case a of Fin r \<Rightarrow> Fin (of_int \<lfloor>r\<rfloor>) | _ \<Rightarrow> a)"

definition fl_ceil :: "fl \<Rightarrow> fl" where
  "fl_ceil a = (case a of Fin r \<Rightarrow> Fin (of_int \<lceil>r\<rceil>) | _ \<Rightarrow> a)"

text \<open>
  An environment gives every non-constant variable its (flattened) tensor; a variable
  produced by \<open>DimShuffle\<close> has the entries of its input. Elementwise operations broadcast:
  a tensor of one entry stands for as many as the other operand has.
\<close>

type_synonym env = "nat \<Rightarrow> fl list"

fun tensor_of :: "env \<Rightarrow> var \<Rightarrow> fl list" where
  "tensor_of env (TensorConstant i n d r xs) = xs"
| "tensor_of env (TensorVariable i n d r (Some (DimShuffle k, [inp]))) = tensor_of env inp"
| "tensor_of env (TensorVariable i n d r ow) = env i"

definition bget :: "fl list \<Rightarrow> nat \<Rightarrow> error + fl" where
  "bget xs i =
     (if length xs = 1 then Inr (hd xs)
      else if i < length xs then Inr (xs ! i)
      else Inl ShapeError)"

definition bsize :: "error + nat \<Rightarrow> error + nat \<Rightarrow> error + nat" where
  "bsize a b =
     (case a of Inl e \<Rightarrow> Inl e
      | Inr m \<Rightarrow>
         (case b of Inl e \<Rightarrow> Inl e
          | Inr n \<Rightarrow>
             if m = n then Inr m
             else if m = 1 then Inr n
             else if n = 1 then Inr m
             else Inl ShapeError))"

fun numel :: "env \<Rightarrow> expr \<Rightarrow> error + nat" where
  "numel env (Leaf v) = Inr (length (tensor_of env v))"
| "numel env (Lit x) = Inr 1"
| "numel env (Eq a b) = bsize (numel env a) (numel env b)"
| "numel env (Gt a b) = bsize (numel env a) (numel env b)"
| "numel env (Lt a b) = bsize (numel env a) (numel env b)"
| "numel env (Le a b) = bsize (numel env a) (numel env b)"
| "numel env (Switch c a b) = bsize (numel env c) (bsize (numel env a) (numel env b))"
| "numel env (All c) = (case numel env c of Inl e \<Rightarrow> Inl e | Inr n \<Rightarrow> Inr 1)"
| "numel env (Log1mexp a) = numel env a"
| "numel env (Logaddexp a b) = bsize (numel env a) (numel env b)"
| "numel env (Logdiffexp a b) = bsize (numel env a) (numel env b)"
| "numel env (RoundE a) = numel env a"
| "numel env (FloorE a) = numel env a"
| "numel env (CeilE a) = numel env a"
| "numel env (Add a b) = bsize (numel env a) (numel env b)"
| "numel env (Sub a b) = bsize (numel env a) (numel env b)"
| "numel env (Logprob bop ins a) = numel env a"
| "numel env (Logcdf bop ins a) = numel env a"
| "numel env (CheckParameterValue msg a c) =
     (case numel env c of Inl e \<Rightarrow> Inl e | Inr n \<Rightarrow> numel env a)"

definition lift1 :: "(fl \<Rightarrow> fl) \<Rightarrow> error + fl \<Rightarrow> error + fl" where
  "lift1 f a = (case a of Inl e \<Rightarrow> Inl e | Inr x \<Rightarrow> Inr (f x))"

definition lift2 :: "(fl \<Rightarrow> fl \<Rightarrow> fl) \<Rightarrow> error + fl \<Rightarrow> error + fl \<Rightarrow> error + fl" where
  "lift2 f a b =
     (case a of Inl e \<Rightarrow> Inl e
      | Inr x \<Rightarrow> (case b of Inl e \<Rightarrow> Inl e | Inr y \<Rightarrow> Inr (f x y)))"

definition lift3 ::
  "(fl \<Rightarrow> fl \<Rightarrow> fl \<Rightarrow> fl) \<Rightarrow> error + fl \<Rightarrow> error + fl \<Rightarrow> error + fl \<Rightarrow> error + fl" where
  "lift3 f a b c =
     (case a of Inl e \<Rightarrow> Inl e
      | Inr x \<Rightarrow>
         (case b of Inl e \<Rightarrow> Inl e
          | Inr y \<Rightarrow> (case c of Inl e \<Rightarrow> Inl e | Inr z \<Rightarrow> Inr (f x y z))))"

text \<open>
  Modelled from the spec: the dispatch on the class of an operation. The copy of an
  operation made by \<open>assign_custom_measurable_outputs\<close> (pymc.logprob.abstract, not among
  the sources) keeps the base variable's own log-probability and log-CDF providers.
\<close>

fun dispatch_class :: "op \<Rightarrow> op" where
  "dispatch_class (Unmeasurable c) = dispatch_class c"
| "dispatch_class (Elemwise sc) = Elemwise sc"
| "dispatch_class (MeasurableClip sc) = MeasurableClip sc"
| "dispatch_class (MeasurableRound sc) = MeasurableRound sc"
| "dispatch_class (RandomVariable nm) = RandomVariable nm"
| "dispatch_class (DimShuffle k) = DimShuffle k"
| "dispatch_class (OtherOp nm) = OtherOp nm"

text \<open>All entries of a list of results are true; the first error wins.\<close>

fun all_true :: "(error + fl) list \<Rightarrow> error + bool" where
  "all_true [] = Inr True"
| "all_true (Inl e # rs) = Inl e"
| "all_true (Inr x # rs) =
     (case all_true rs of Inl e \<Rightarrow> Inl e | Inr b \<Rightarrow> Inr (truthy x \<and> b))"

text \<open>
  Modelled from the spec: \<open>CheckParameterValue\<close> (pymc.logprob.utils, not among the
  sources) returns its first operand when all entries of its condition are true, and
  otherwise fails at evaluation time, with its message. Both operands are computed first.
\<close>

definition check_parameter_value :: "string \<Rightarrow> error + fl \<Rightarrow> error + bool \<Rightarrow> error + fl" where
  "check_parameter_value msg val conds =
     (case val of
        Inl e \<Rightarrow> Inl e
      | Inr x \<Rightarrow>
         (case conds of
            Inl e \<Rightarrow> Inl e
          | Inr b \<Rightarrow> if b then Inr x else Inl (ParameterValueError msg)))"

text \<open>
  \<open>eval s env e i\<close> is entry \<open>i\<close> of the tensor \<open>e\<close> evaluates to, or the error its
  evaluation raises. \<open>Switch\<close> is strict: all three operands are computed.
\<close>

fun eval :: "sem \<Rightarrow> env \<Rightarrow> expr \<Rightarrow> nat \<Rightarrow> error + fl" where
  "eval s env (Leaf v) i = bget (tensor_of env v) i"
| "eval s env (Lit x) i = Inr x"
| "eval s env (Eq a b) i = lift2 (\<lambda>x y. of_truth (fl_eq x y)) (eval s env a i) (eval s env b i)"
| "eval s env (Gt a b) i = lift2 (\<lambda>x y. of_truth (fl_gt x y)) (eval s env a i) (eval s env b i)"
| "eval s env (Lt a b) i = lift2 (\<lambda>x y. of_truth (fl_lt x y)) (eval s env a i) (eval s env b i)"
| "eval s env (Le a b) i = lift2 (\<lambda>x y. of_truth (fl_le x y)) (eval s env a i) (eval s env b i)"
| "eval s env (Switch c a b) i =
     lift3 (\<lambda>t x y. if truthy t then x else y) (eval s env c i) (eval s env a i) (eval s env b i)"
| "eval s env (All c) i =
     (case numel env c of
        Inl e \<Rightarrow> Inl e
      | Inr n \<Rightarrow>
         (case all_true (map (\<lambda>j. eval s env c j) [0..<n]) of
            Inl e \<Rightarrow> Inl e
          | Inr b \<Rightarrow> Inr (of_truth b)))"
| "eval s env (Log1mexp a) i = lift1 (log1mexp_sem s) (eval s env a i)"
| "eval s env (Logaddexp a b) i = lift2 (logaddexp_sem s) (eval s env a i) (eval s env b i)"
| "eval s env (Logdiffexp a b) i = lift2 (logdiffexp_sem s) (eval s env a i) (eval s env b i)"
| "eval s env (RoundE a) i = lift1 fl_round (eval s env a i)"
| "eval s env (FloorE a) i = lift1 fl_floor (eval s env a i)"
| "eval s env (CeilE a) i = lift1 fl_ceil (eval s env a i)"
| "eval s env (Add a b) i = lift2 (add_sem s) (eval s env a i) (eval s env b i)"
| "eval s env (Sub a b) i = lift2 (sub_sem s) (eval s env a i) (eval s env b i)"
| "eval s env (Logprob bop ins a) i = lift1 (logprob_sem s (dispatch_class bop) ins) (eval s env a i)"
| "eval s env (Logcdf bop ins a) i = lift1 (logcdf_sem s (dispatch_class bop) ins) (eval s env a i)"
| "eval s env (CheckParameterValue msg a c) i =
     check_parameter_value msg (eval s env a i)
       (case numel env c of
          Inl e \<Rightarrow> Inl e
        | Inr n \<Rightarrow> all_true (map (\<lambda>j. eval s env c j) [0..<n]))"

section \<open>The log-density rule of a clipped variable\<close>

text \<open>
  The two tests of \<open>clip_logprob\<close> on its bounds: the upper bound counts unless it is a
  constant all of whose entries are infinite (of either sign, \<open>np.isinf\<close>); the lower bound
  counts unless it is a constant all of whose entries are minus infinity (\<open>np.isneginf\<close>).
\<close>

definition is_upper_bounded :: "var \<Rightarrow> bool" where
  "is_upper_bounded upper_bound =
     (\<not> (is_TensorConstant upper_bound \<and> list_all isinf (const_value upper_bound)))"

definition is_lower_bounded :: "var \<Rightarrow> bool" where
  "is_lower_bounded lower_bound =
     (\<not> (is_TensorConstant lower_bound \<and> list_all isneginf (const_value lower_bound)))"

definition clip_logprob :: "op \<Rightarrow> var list \<Rightarrow> var \<Rightarrow> var \<Rightarrow> var \<Rightarrow> error + expr" where
  "clip_logprob opr values base_rv lower_bound upper_bound =
     (case values of
        [value] \<Rightarrow>
          (case owner base_rv of
             None \<Rightarrow> Inl AttributeError
           | Some (base_rv_op, base_rv_inputs) \<Rightarrow>
              (let logprob = Logprob base_rv_op base_rv_inputs (Leaf value);
                   logcdf = Logcdf base_rv_op base_rv_inputs (Leaf value);
                   logprob1 =
                     (if is_upper_bounded upper_bound then
                        (let logccdf = Log1mexp logcdf;
                             logccdf1 =
                               (if startswith (dtype base_rv) ''int''
                                then Logaddexp logccdf logprob else logccdf)
                         in Switch (Eq (Leaf value) (Leaf upper_bound)) logccdf1
                              (Switch (Gt (Leaf value) (Leaf upper_bound)) (Lit NInf) logprob))
                      else logprob);
                   logprob2 =
                     (if is_lower_bounded lower_bound then
                        Switch (Eq (Leaf value) (Leaf lower_bound)) logcdf
                          (Switch (Lt (Leaf value) (Leaf lower_bound)) (Lit NInf) logprob1)
                      else logprob1)
               in Inr
                    (if is_lower_bounded lower_bound \<and> is_upper_bounded upper_bound then
                       CheckParameterValue ''lower_bound <= upper_bound'' logprob2
                         (All (Le (Leaf lower_bound) (Leaf upper_bound)))
                     else logprob2)))
      | _ \<Rightarrow> Inl ValueError)"

text \<open>The value a compiled log-density gives at entry \<open>i\<close>: the rule builds the graph, the graph is evaluated.\<close>

definition logp_at :: "sem \<Rightarrow> env \<Rightarrow> error + expr \<Rightarrow> nat \<Rightarrow> error + fl" where
  "logp_at s env r i = (case r of Inl e \<Rightarrow> Inl e | Inr ex \<Rightarrow> eval s env ex i)"

text \<open>Whether a graph contains a runtime check.\<close>

fun has_check :: "expr \<Rightarrow> bool" where
  "has_check (CheckParameterValue msg a c) = True"
| "has_check (Leaf v) = False"
| "has_check (Lit x) = False"
| "has_check (Eq a b) = (has_check a \<or> has_check b)"
| "has_check (Gt a b) = (has_check a \<or> has_check b)"
| "has_check (Lt a b) = (has_check a \<or> has_check b)"
| "has_check (Le a b) = (has_check a \<or> has_check b)"
| "has_check (Switch c a b) = (has_check c \<or> has_check a \<or> has_check b)"
| "has_check (All c) = has_check c"
| "has_check (Log1mexp a) = has_check a"
| "has_check (Logaddexp a b) = (has_check a \<or> has_check b)"
| "has_check (Logdiffexp a b) = (has_check a \<or> has_check b)"
| "has_check (RoundE a) = has_check a"
| "has_check (FloorE a) = has_check a"
| "has_check (CeilE a) = has_check a"
| "has_check (Add a b) = (has_check a \<or> has_check b)"
| "has_check (Sub a b) = (has_check a \<or> has_check b)"
| "has_check (Logprob bop ins a) = has_check a"
| "has_check (Logcdf bop ins a) = has_check a"

section \<open>The log-density rule of a rounded variable\<close>

fun scalar_op_of :: "op \<Rightarrow> scalar_op option" where
  "scalar_op_of (Elemwise sc) = Some sc"
| "scalar_op_of (MeasurableClip sc) = Some sc"
| "scalar_op_of (MeasurableRound sc) = Some sc"
| "scalar_op_of (Unmeasurable c) = scalar_op_of c"
| "scalar_op_of (RandomVariable nm) = None"
| "scalar_op_of (DimShuffle k) = None"
| "scalar_op_of (OtherOp nm) = None"

definition round_logprob :: "op \<Rightarrow> var list \<Rightarrow> var \<Rightarrow> error + expr" where
  "round_logprob opr values base_rv =
     (case values of
        [value0] \<Rightarrow>
          (case
             (case scalar_op_of opr of
                None \<Rightarrow> Inl AttributeError
              | Some RoundHalfToEven \<Rightarrow>
                  (let value = RoundE (Leaf value0)
                   in Inr (Add value (Lit (Fin (1 / 2))), Sub value (Lit (Fin (1 / 2)))))
              | Some Floor \<Rightarrow>
                  (let value = FloorE (Leaf value0)
                   in Inr (Add value (Lit (Fin 1)), value))
              | Some Ceil \<Rightarrow>
                  (let value = CeilE (Leaf value0)
                   in Inr (value, Sub value (Lit (Fin 1))))
              | Some sc \<Rightarrow> Inl (TypeError ''Unsupported scalar_op''))
           of
             Inl e \<Rightarrow> Inl e
           | Inr (value_upper, value_lower) \<Rightarrow>
              (case owner base_rv of
                 None \<Rightarrow> Inl AttributeError
               | Some (base_rv_op, base_rv_inputs) \<Rightarrow>
                  (let logcdf_upper = Logcdf base_rv_op base_rv_inputs value_upper;
                       logcdf_lower = Logcdf base_rv_op base_rv_inputs value_lower
                   in Inr (Logdiffexp logcdf_upper logcdf_lower))))
      | _ \<Rightarrow> Inl ValueError)"

section \<open>The pattern matchers\<close>

text \<open>
  What the matchers take from outside the module: which operations are instances of
  \<open>MeasurableVariable\<close> (a registry), the dtype an elementwise node gives its output, and
  the dtype of a constant made from a Python float.
\<close>

record ext =
  measurable :: "op \<Rightarrow> bool"
  upcast :: "string list \<Rightarrow> string"
  floatX :: string

record rv_map_feature =
  rv_values :: "nat \<rightharpoonup> var"

record fgraph =
  preserve_rv_mappings :: "rv_map_feature option"

record node =
  node_op :: op
  node_inputs :: "var list"
  node_outputs :: "var list"

fun isinstance_MeasurableClip :: "op \<Rightarrow> bool" where
  "isinstance_MeasurableClip (MeasurableClip sc) = True"
| "isinstance_MeasurableClip (Unmeasurable c) = isinstance_MeasurableClip c"
| "isinstance_MeasurableClip (Elemwise sc) = False"
| "isinstance_MeasurableClip (MeasurableRound sc) = False"
| "isinstance_MeasurableClip (RandomVariable nm) = False"
| "isinstance_MeasurableClip (DimShuffle k) = False"
| "isinstance_MeasurableClip (OtherOp nm) = False"

fun isinstance_MeasurableRound :: "op \<Rightarrow> bool" where
  "isinstance_MeasurableRound (MeasurableRound sc) = True"
| "isinstance_MeasurableRound (Unmeasurable c) = isinstance_MeasurableRound c"
| "isinstance_MeasurableRound (Elemwise sc) = False"
| "isinstance_MeasurableRound (MeasurableClip sc) = False"
| "isinstance_MeasurableRound (RandomVariable nm) = False"
| "isinstance_MeasurableRound (DimShuffle k) = False"
| "isinstance_MeasurableRound (OtherOp nm) = False"

fun isinstance_Elemwise :: "op \<Rightarrow> bool" where
  "isinstance_Elemwise (Elemwise sc) = True"
| "isinstance_Elemwise (MeasurableClip sc) = True"
| "isinstance_Elemwise (MeasurableRound sc) = True"
| "isinstance_Elemwise (Unmeasurable c) = isinstance_Elemwise c"
| "isinstance_Elemwise (RandomVariable nm) = False"
| "isinstance_Elemwise (DimShuffle k) = False"
| "isinstance_Elemwise (OtherOp nm) = False"

text \<open>\<^verbatim>\<open>at.constant\<close> of a Python float: a new constant of rank 0, with one entry.\<close>

definition at_constant :: "ext \<Rightarrow> nat \<Rightarrow> fl \<Rightarrow> var" where
  "at_constant x fresh c = TensorConstant fresh None (floatX x) 0 [c]"

text \<open>
  Modelled from the spec: \<open>assign_custom_measurable_outputs\<close> (pymc.logprob.abstract, not
  among the sources) strips the measurable capability from the base variable's defining
  node: the result is a new variable, produced by a copy of that node whose operation is
  marked. It is given the variable rather than its node, for the name and dtype of the copy.
\<close>

definition assign_custom_measurable_outputs :: "nat \<Rightarrow> var \<Rightarrow> var" where
  "assign_custom_measurable_outputs fresh base_var =
     TensorVariable fresh (name base_var) (dtype base_var) (ndim base_var)
       (case owner base_var of
          None \<Rightarrow> None
        | Some (bop, ins) \<Rightarrow> Some (Unmeasurable bop, ins))"

text \<open>
  \<^verbatim>\<open>make_node\<close> of an elementwise operation (aesara.tensor.elemwise, a library the
  sources call), and its output, a new variable without a name. The output has the largest rank among the inputs, and an input of a lower rank
  enters the node through a new \<open>DimShuffle\<close> variable that brings it to that rank. The
  output takes the identity \<open>fresh\<close>, the wrapper of input number \<open>k\<close> the identity
  \<open>fresh + 1 + k\<close>.
\<close>

definition dimshuffle_to :: "nat \<Rightarrow> nat \<Rightarrow> var \<Rightarrow> var" where
  "dimshuffle_to fresh target inp =
     (if ndim inp = target then inp
      else TensorVariable fresh None (dtype inp) target
             (Some (DimShuffle (target - ndim inp), [inp])))"

definition make_node_output :: "ext \<Rightarrow> nat \<Rightarrow> op \<Rightarrow> var list \<Rightarrow> var" where
  "make_node_output x fresh opr ins =
     (let target = foldr max (map ndim ins) 0;
          args = map (\<lambda>(k, inp). dimshuffle_to (fresh + 1 + k) target inp) (enumerate 0 ins)
      in TensorVariable fresh None (upcast x (map dtype args)) target (Some (opr, args)))"

definition set_name :: "var \<Rightarrow> string option \<Rightarrow> var" where
  "set_name v nm =
     (case v of
        TensorVariable i n d r ow \<Rightarrow> TensorVariable i nm d r ow
      | TensorConstant i n d r xs \<Rightarrow> TensorConstant i nm d r xs)"

text \<open>
  \<open>fresh\<close> is the first identity no object has yet: the objects the matcher creates take
  \<open>fresh\<close>, \<open>fresh + 1\<close>, ... The result is \<open>Inr None\<close> when no rewrite is proposed, \<open>Inr (Some
  [v])\<close> when the node is to be replaced by \<open>v\<close>, \<open>Inl\<close> an error when a statement raises.
\<close>

definition find_measurable_clips ::
  "ext \<Rightarrow> nat \<Rightarrow> fgraph \<Rightarrow> node \<Rightarrow> error + var list option" where
  "find_measurable_clips x fresh fg nd =
     (case preserve_rv_mappings fg of
        None \<Rightarrow> Inr None
      | Some rv_map_feature \<Rightarrow>
          if isinstance_MeasurableClip (node_op nd) then Inr None
          else if \<not> (isinstance_Elemwise (node_op nd) \<and> scalar_op_of (node_op nd) = Some Clip)
          then Inr None
          else
            (case node_outputs nd of
               [] \<Rightarrow> Inl IndexError
             | clipped_var # rest \<Rightarrow>
                (case node_inputs nd of
                   [base_var, lower_bound, upper_bound] \<Rightarrow>
                     if \<not> (case owner base_var of
                              None \<Rightarrow> False
                            | Some (bop, ins) \<Rightarrow>
                                measurable x bop \<and> rv_values rv_map_feature (ident base_var) = None)
                     then Inr None
                     else
                       (let lower_bound1 =
                              (if \<not> same_object lower_bound base_var then lower_bound
                               else at_constant x fresh NInf);
                            upper_bound1 =
                              (if \<not> same_object upper_bound base_var then upper_bound
                               else at_constant x (fresh + 1) PInf);
                            unmeasurable_base_var =
                              assign_custom_measurable_outputs (fresh + 2) base_var;
                            clipped_rv =
                              make_node_output x (fresh + 3) (MeasurableClip Clip)
                                [unmeasurable_base_var, lower_bound1, upper_bound1]
                        in Inr (Some [set_name clipped_rv (name clipped_var)]))
                 | _ \<Rightarrow> Inl ValueError)))"

definition valid_scalar_types_MeasurableRound :: "scalar_op \<Rightarrow> bool" where
  "valid_scalar_types_MeasurableRound sc = (sc = RoundHalfToEven \<or> sc = Floor \<or> sc = Ceil)"

definition find_measurable_roundings ::
  "ext \<Rightarrow> nat \<Rightarrow> fgraph \<Rightarrow> node \<Rightarrow> error + var list option" where
  "find_measurable_roundings x fresh fg nd =
     (case preserve_rv_mappings fg of
        None \<Rightarrow> Inr None
      | Some rv_map_feature \<Rightarrow>
          if isinstance_MeasurableRound (node_op nd) then Inr None
          else
            (case (if isinstance_Elemwise (node_op nd) then scalar_op_of (node_op nd) else None) of
               None \<Rightarrow> Inr None
             | Some sc \<Rightarrow>
                if \<not> valid_scalar_types_MeasurableRound sc then Inr None
                else
                  (case node_outputs nd of
                     [rounded_var] \<Rightarrow>
                       (case node_inputs nd of
                          [base_var] \<Rightarrow>
                            if \<not> (case owner base_var of
                                     None \<Rightarrow> False
                                   | Some (bop, ins) \<Rightarrow>
                                       measurable x bop
                                       \<and> rv_values rv_map_feature (ident base_var) = None
                                       \<and> startswith (dtype base_var) ''float'')
                            then Inr None
                            else
                              (let unmeasurable_base_var =
                                     assign_custom_measurable_outputs fresh base_var;
                                   rounded_rv =
                                     make_node_output x (fresh + 1) (MeasurableRound sc)
                                       [unmeasurable_base_var]
                               in Inr (Some [set_name rounded_rv (name rounded_var)]))
                        | _ \<Rightarrow> Inl ValueError)
                   | _ \<Rightarrow> Inl ValueError)))"

section \<open>Dispatch and the joint log-probability\<close>

text \<open>Whether \<open>t\<close> is a sub-expression of \<open>e\<close>.\<close>

fun occurs :: "expr \<Rightarrow> expr \<Rightarrow> bool" where
  "occurs t (Leaf v) = (t = Leaf v)"
| "occurs t (Lit x) = (t = Lit x)"
| "occurs t (Eq a b) = (t = Eq a b \<or> occurs t a \<or> occurs t b)"
| "occurs t (Gt a b) = (t = Gt a b \<or> occurs t a \<or> occurs t b)"
| "occurs t (Lt a b) = (t = Lt a b \<or> occurs t a \<or> occurs t b)"
| "occurs t (Le a b) = (t = Le a b \<or> occurs t a \<or> occurs t b)"
| "occurs t (Switch c a b) = (t = Switch c a b \<or> occurs t c \<or> occurs t a \<or> occurs t b)"
| "occurs t (All c) = (t = All c \<or> occurs t c)"
| "occurs t (Log1mexp a) = (t = Log1mexp a \<or> occurs t a)"
| "occurs t (Logaddexp a b) = (t = Logaddexp a b \<or> occurs t a \<or> occurs t b)"
| "occurs t (Logdiffexp a b) = (t = Logdiffexp a b \<or> occurs t a \<or> occurs t b)"
| "occurs t (RoundE a) = (t = RoundE a \<or> occurs t a)"
| "occurs t (FloorE a) = (t = FloorE a \<or> occurs t a)"
| "occurs t (CeilE a) = (t = CeilE a \<or> occurs t a)"
| "occurs t (Add a b) = (t = Add a b \<or> occurs t a \<or> occurs t b)"
| "occurs t (Sub a b) = (t = Sub a b \<or> occurs t a \<or> occurs t b)"
| "occurs t (Logprob bop ins a) = (t = Logprob bop ins a \<or> occurs t a)"
| "occurs t (Logcdf bop ins a) = (t = Logcdf bop ins a \<or> occurs t a)"
| "occurs t (CheckParameterValue msg a c) =
     (t = CheckParameterValue msg a c \<or> occurs t a \<or> occurs t c)"

text \<open>
  Modelled from the spec: the capability dispatch \<open>_logprob\<close> (pymc.logprob.abstract, not
  among the sources), called as \<open>(operation, observed_value, *operation_inputs)\<close>. The
  module registers \<open>clip_logprob\<close> for \<open>MeasurableClip\<close> and \<open>round_logprob\<close> for
  \<open>MeasurableRound\<close>; any other operation is a base distribution with a rule of its own.
\<close>

definition logprob_rule :: "var \<Rightarrow> var \<Rightarrow> error + expr" where
  "logprob_rule rv value =
     (case owner rv of
        None \<Rightarrow> Inl AttributeError
      | Some (opr, ins) \<Rightarrow>
          if isinstance_MeasurableClip opr then
            (case ins of
               [base_rv, lower_bound, upper_bound] \<Rightarrow>
                 clip_logprob opr [value] base_rv lower_bound upper_bound
             | _ \<Rightarrow> Inl (TypeError ''clip_logprob: positional arguments''))
          else if isinstance_MeasurableRound opr then
            (case ins of
               [base_rv] \<Rightarrow> round_logprob opr [value] base_rv
             | _ \<Rightarrow> Inl (TypeError ''round_logprob: positional arguments''))
          else Inr (Logprob opr ins (Leaf value)))"

text \<open>
  Modelled from the spec: the joint log-probability driver
  (\<open>factorized_joint_logprob\<close> of pymc.logprob.joint_logprob, not among the sources), as far
  as the module's failures go. The observed-value mapping is a list of pairs of a random
  variable and its value variable. The driver offers the node of every observed variable
  to the two matchers and replaces it when a rewrite is proposed; it then walks the
  observed variables: one whose node carries the measurable capability contributes the
  density its rule gives, the others cannot be derived, and if there are any the driver
  fails, naming them. Two transforms that claim one base are outside this model.
\<close>

definition rewrite_rv :: "ext \<Rightarrow> fgraph \<Rightarrow> nat \<Rightarrow> var \<Rightarrow> error + var" where
  "rewrite_rv x fg fresh rv =
     (case owner rv of
        None \<Rightarrow> Inr rv
      | Some (opr, ins) \<Rightarrow>
         (let nd = \<lparr>node_op = opr, node_inputs = ins, node_outputs = [rv]\<rparr> in
          case find_measurable_clips x fresh fg nd of
            Inl e \<Rightarrow> Inl e
          | Inr (Some (new_rv # others)) \<Rightarrow> Inr new_rv
          | Inr other \<Rightarrow>
             (case find_measurable_roundings x fresh fg nd of
                Inl e \<Rightarrow> Inl e
              | Inr (Some (new_rv # others)) \<Rightarrow> Inr new_rv
              | Inr other1 \<Rightarrow> Inr rv)))"

fun rewrite_all :: "ext \<Rightarrow> fgraph \<Rightarrow> nat \<Rightarrow> (var \<times> var) list \<Rightarrow> error + (var \<times> var) list" where
  "rewrite_all x fg fresh [] = Inr []"
| "rewrite_all x fg fresh ((rv, vv) # rest) =
     (case rewrite_rv x fg fresh rv of
        Inl e \<Rightarrow> Inl e
      | Inr rv1 \<Rightarrow>
         (case rewrite_all x fg (fresh + 8) rest of
            Inl e \<Rightarrow> Inl e
          | Inr rest1 \<Rightarrow> Inr ((rv1, vv) # rest1)))"

definition carries_measurable :: "ext \<Rightarrow> var \<Rightarrow> bool" where
  "carries_measurable x rv =
     (case owner rv of None \<Rightarrow> False | Some (opr, ins) \<Rightarrow> measurable x opr)"

fun derive_all :: "(var \<times> var) list \<Rightarrow> error + expr list" where
  "derive_all [] = Inr []"
| "derive_all ((rv, vv) # rest) =
     (case logprob_rule rv vv of
        Inl e \<Rightarrow> Inl e
      | Inr t \<Rightarrow>
         (case derive_all rest of Inl e \<Rightarrow> Inl e | Inr ts \<Rightarrow> Inr (t # ts)))"

definition factorized_joint_logprob ::
  "ext \<Rightarrow> nat \<Rightarrow> (var \<times> var) list \<Rightarrow> error + expr list" where
  "factorized_joint_logprob x fresh observed =
     (let fg = \<lparr>preserve_rv_mappings =
                 Some \<lparr>rv_values = map_of (map (\<lambda>(rv, vv). (ident rv, vv)) observed)\<rparr>\<rparr>
      in case rewrite_all x fg fresh observed of
           Inl e \<Rightarrow> Inl e
         | Inr rewritten \<Rightarrow>
            (let missing = filter (\<lambda>(rv, vv). \<not> carries_measurable x rv) rewritten in
             if missing \<noteq> [] then Inl (CouldNotBeDerived (map (\<lambda>(rv, vv). name rv) missing))
             else derive_all rewritten))"

section \<open>A reference meaning and the graphs of the test suite\<close>

text \<open>
  Exact real arithmetic for the primitives, with two base distributions: the standard
  logistic distribution (continuous) and the geometric distribution with success
  probability one half on 0, 1, 2, ... (discrete). Concrete evaluations use it.
\<close>

definition fl_add :: "fl \<Rightarrow> fl \<Rightarrow> fl" where
  "fl_add a b =
     (case a of
        NaN \<Rightarrow> NaN
      | Fin u \<Rightarrow> (case b of Fin w \<Rightarrow> Fin (u + w) | _ \<Rightarrow> b)
      | PInf \<Rightarrow> (case b of NInf \<Rightarrow> NaN | NaN \<Rightarrow> NaN | _ \<Rightarrow> PInf)
      | NInf \<Rightarrow> (case b of PInf \<Rightarrow> NaN | NaN \<Rightarrow> NaN | _ \<Rightarrow> NInf))"

definition fl_neg :: "fl \<Rightarrow> fl" where
  "fl_neg a = (case a of NInf \<Rightarrow> PInf | Fin u \<Rightarrow> Fin (- u) | PInf \<Rightarrow> NInf | NaN \<Rightarrow> NaN)"

definition fl_sub :: "fl \<Rightarrow> fl \<Rightarrow> fl" where
  "fl_sub a b = fl_add a (fl_neg b)"

definition fl_exp :: "fl \<Rightarrow> fl" where
  "fl_exp a = (case a of NInf \<Rightarrow> Fin 0 | Fin u \<Rightarrow> Fin (exp u) | PInf \<Rightarrow> PInf | NaN \<Rightarrow> NaN)"

definition fl_log :: "fl \<Rightarrow> fl" where
  "fl_log a =
     (case a of
        Fin u \<Rightarrow> if 0 < u then Fin (ln u) else if u = 0 then NInf else NaN
      | PInf \<Rightarrow> PInf
      | _ \<Rightarrow> NaN)"

definition logistic_cdf :: "fl \<Rightarrow> fl" where
  "logistic_cdf a =
     (case a of
        NInf \<Rightarrow> Fin 0 | Fin u \<Rightarrow> Fin (1 / (1 + exp (- u))) | PInf \<Rightarrow> Fin 1 | NaN \<Rightarrow> NaN)"

definition logistic_pdf :: "fl \<Rightarrow> fl" where
  "logistic_pdf a =
     (case a of
        Fin u \<Rightarrow> Fin (exp (- u) / (1 + exp (- u)) ^ 2) | NaN \<Rightarrow> NaN | _ \<Rightarrow> Fin 0)"

definition geometric_cdf :: "fl \<Rightarrow> fl" where
  "geometric_cdf a =
     (case a of
        NInf \<Rightarrow> Fin 0
      | Fin u \<Rightarrow> if 0 \<le> u then Fin (1 - (1 / 2) ^ nat (\<lfloor>u\<rfloor> + 1)) else Fin 0
      | PInf \<Rightarrow> Fin 1
      | NaN \<Rightarrow> NaN)"

definition geometric_pmf :: "fl \<Rightarrow> fl" where
  "geometric_pmf a =
     (case a of
        Fin u \<Rightarrow> if 0 \<le> u \<and> u = of_int \<lfloor>u\<rfloor> then Fin ((1 / 2) ^ nat (\<lfloor>u\<rfloor> + 1)) else Fin 0
      | NaN \<Rightarrow> NaN
      | _ \<Rightarrow> Fin 0)"

definition reference_sem :: sem where
  "reference_sem =
     \<lparr>logprob_sem = (\<lambda>bop ins a.
         if bop = RandomVariable ''geometric'' then fl_log (geometric_pmf a)
         else fl_log (logistic_pdf a)),
      logcdf_sem = (\<lambda>bop ins a.
         if bop = RandomVariable ''geometric'' then fl_log (geometric_cdf a)
         else fl_log (logistic_cdf a)),
      log1mexp_sem = (\<lambda>a. fl_log (fl_sub (Fin 1) (fl_exp a))),
      logaddexp_sem = (\<lambda>a b. fl_log (fl_add (fl_exp a) (fl_exp b))),
      logdiffexp_sem = (\<lambda>a b. fl_log (fl_sub (fl_exp a) (fl_exp b))),
      add_sem = fl_add,
      sub_sem = fl_sub\<rparr>"

definition reference_ext :: ext where
  "reference_ext =
     \<lparr>measurable = (\<lambda>opr.
         case opr of
           RandomVariable nm \<Rightarrow> True
         | MeasurableClip sc \<Rightarrow> True
         | MeasurableRound sc \<Rightarrow> True
         | _ \<Rightarrow> False),
      upcast = (\<lambda>ds. if list_ex (\<lambda>d. startswith d ''float'') ds then ''float64'' else ''int64''),
      floatX = ''float64''\<rparr>"

text \<open>
  The variables of the tests: a continuous and a discrete random variable of rank 0, a
  discrete one of an unsigned dtype, a continuous one of rank 1, value variables, numeric
  constants of rank 0 and 1, and the node \<open>at.clip(base, lower, upper)\<close>.
\<close>

definition x_rv :: var where
  "x_rv = TensorVariable 1 (Some ''x'') ''float64'' 0 (Some (RandomVariable ''logistic'', []))"

definition n_rv :: var where
  "n_rv = TensorVariable 2 (Some ''n'') ''int64'' 0 (Some (RandomVariable ''geometric'', []))"

definition u_rv :: var where
  "u_rv = TensorVariable 3 (Some ''u'') ''uint8'' 0 (Some (RandomVariable ''geometric'', []))"

definition x_vec :: var where
  "x_vec = TensorVariable 4 (Some ''x'') ''float64'' 1 (Some (RandomVariable ''logistic'', []))"

definition value_var :: "nat \<Rightarrow> string \<Rightarrow> var" where
  "value_var i nm = TensorVariable i (Some nm) ''float64'' 0 None"

definition value_vec :: "nat \<Rightarrow> string \<Rightarrow> var" where
  "value_vec i nm = TensorVariable i (Some nm) ''float64'' 1 None"

definition num :: "nat \<Rightarrow> fl list \<Rightarrow> var" where
  "num i xs = TensorConstant i None ''float64'' 0 xs"

definition vec :: "nat \<Rightarrow> fl list \<Rightarrow> var" where
  "vec i xs = TensorConstant i None ''float64'' 1 xs"

definition at_clip :: "nat \<Rightarrow> string \<Rightarrow> var \<Rightarrow> var \<Rightarrow> var \<Rightarrow> var" where
  "at_clip i nm base lower upper =
     TensorVariable i (Some nm) (dtype base) (ndim base)
       (Some (Elemwise Clip, [base, lower, upper]))"

definition at_elemwise :: "nat \<Rightarrow> string \<Rightarrow> scalar_op \<Rightarrow> var \<Rightarrow> var" where
  "at_elemwise i nm sc base =
     TensorVariable i (Some nm) (dtype base) (ndim base) (Some (Elemwise sc, [base]))"

definition node_of :: "var \<Rightarrow> node" where
  "node_of v =
     (case owner v of
        None \<Rightarrow> \<lparr>node_op = OtherOp ''input'', node_inputs = [], node_outputs = [v]\<rparr>
      | Some (opr, ins) \<Rightarrow> \<lparr>node_op = opr, node_inputs = ins, node_outputs = [v]\<rparr>)"

definition graph_with :: "(var \<times> var) list \<Rightarrow> fgraph" where
  "graph_with observed =
     \<lparr>preserve_rv_mappings =
        Some \<lparr>rv_values = map_of (map (\<lambda>(rv, vv). (ident rv, vv)) observed)\<rparr>\<rparr>"

definition env_of :: "(nat \<times> fl list) list \<Rightarrow> env" where
  "env_of kvs i = (case map_of kvs i of None \<Rightarrow> [] | Some xs \<Rightarrow> xs)"

section \<open>Evaluation lemmas\<close>

lemma all_true_Inr:
  "all_true rs = Inr b \<Longrightarrow>
     (\<forall>r \<in> set rs. \<exists>x. r = Inr x) \<and> (b \<longleftrightarrow> (\<forall>r \<in> set rs. \<forall>x. r = Inr x \<longrightarrow> truthy x))"
proof (induction rs arbitrary: b rule: all_true.induct)
  case 1
  then show ?case by simp
next
  case (2 e rs)
  then show ?case by simp
next
  case (3 x rs)
  then obtain b' where b': "all_true rs = Inr b'" and b: "b = (truthy x \<and> b')"
    by (auto split: sum.splits)
  from "3.IH" [OF b'] b show ?case by auto
qed


lemma startswith_float_not_int:
  "startswith d ''float'' \<Longrightarrow> \<not> startswith d ''int''"
  by (cases d) (auto simp: startswith_def)

lemma truthy_of_truth [simp]: "truthy (of_truth b) = b"
  by (simp add: truthy_def of_truth_def)

lemma of_truth_eq [simp]:
  "of_truth b = Fin 1 \<longleftrightarrow> b" "of_truth b = Fin 0 \<longleftrightarrow> \<not> b"
  by (simp_all add: of_truth_def)

lemma eval_All_iff:
  "eval s env (All c) k = Inr (of_truth b) \<longleftrightarrow>
     (\<exists>n. numel env c = Inr n \<and> all_true (map (\<lambda>j. eval s env c j) [0..<n]) = Inr b)"
  by (auto split: sum.splits simp: of_truth_def)

lemma check_pass:
  assumes "eval s env (All d) 0 = Inr (Fin 1)"
  shows "eval s env (CheckParameterValue msg a (All d)) i = eval s env a i"
proof -
  from assms obtain n where "numel env d = Inr n"
    by (auto split: sum.splits)
  with assms show ?thesis
    by (cases "eval s env a i") (simp_all add: truthy_def check_parameter_value_def)
qed

lemma check_fail:
  assumes "eval s env (All d) 0 = Inr (Fin 0)" and "eval s env a i = Inr x"
  shows "eval s env (CheckParameterValue msg a (All d)) i = Inl (ParameterValueError msg)"
proof -
  from assms obtain n where "numel env d = Inr n"
    by (auto split: sum.splits)
  with assms show ?thesis
    by (simp add: truthy_def check_parameter_value_def)
qed

lemma bget_index:
  assumes "bget xs i = Inr a" "bget ys i = Inr b"
    and "bsize (Inr (length xs)) (Inr (length ys)) = Inr n"
  shows "\<exists>j<n. bget xs j = Inr a \<and> bget ys j = Inr b"
proof (cases "length xs = 1 \<and> length ys = 1")
  case True
  with assms show ?thesis by (intro exI [of _ 0]) (auto simp: bget_def bsize_def)
next
  case False
  with assms show ?thesis
    by (intro exI [of _ i]) (auto simp: bget_def bsize_def split: if_splits)
qed

lemma guard_entry:
  assumes g: "eval s env (All (Le (Leaf lb) (Leaf ub))) k = Inr (Fin 1)"
    and lo: "bget (tensor_of env lb) i = Inr lo"
    and hi: "bget (tensor_of env ub) i = Inr hi"
  shows "fl_le lo hi"
proof -
  from g have "eval s env (All (Le (Leaf lb) (Leaf ub))) k = Inr (of_truth True)"
    by (simp add: of_truth_def)
  then obtain n where n: "numel env (Le (Leaf lb) (Leaf ub)) = Inr n"
    and t: "all_true (map (\<lambda>j. eval s env (Le (Leaf lb) (Leaf ub)) j) [0..<n]) = Inr True"
    unfolding eval_All_iff by blast
  from n have "bsize (Inr (length (tensor_of env lb))) (Inr (length (tensor_of env ub))) = Inr n"
    by simp
  from bget_index [OF lo hi this] obtain j where j: "j < n"
    "bget (tensor_of env lb) j = Inr lo" "bget (tensor_of env ub) j = Inr hi" by blast
  from all_true_Inr [OF t] j(1)
  have "\<forall>x. eval s env (Le (Leaf lb) (Leaf ub)) j = Inr x \<longrightarrow> truthy x" by auto
  with j show ?thesis by (simp add: lift2_def)
qed



lemma fl_order:
  "fl_le lo hi \<Longrightarrow> fl_lt v lo \<Longrightarrow> \<not> fl_eq v hi \<and> \<not> fl_gt v hi \<and> \<not> fl_eq v lo"
  "fl_le lo hi \<Longrightarrow> fl_gt v hi \<Longrightarrow> \<not> fl_eq v lo \<and> \<not> fl_lt v lo \<and> \<not> fl_eq v hi"
  "fl_lt lo v \<Longrightarrow> \<not> fl_eq v lo \<and> \<not> fl_lt v lo"
  "fl_lt v hi \<Longrightarrow> \<not> fl_eq v hi \<and> \<not> fl_gt v hi"
  by (auto simp: fl_le_def fl_lt_def fl_eq_def fl_gt_def split: fl.splits)

lemma clip_logprob_both:
  assumes "owner base_rv = Some (bop, ins)"
    and "is_lower_bounded lb" "is_upper_bounded ub"
  shows "clip_logprob opr [value] base_rv lb ub =
     Inr (CheckParameterValue ''lower_bound <= upper_bound''
       (Switch (Eq (Leaf value) (Leaf lb)) (Logcdf bop ins (Leaf value))
          (Switch (Lt (Leaf value) (Leaf lb)) (Lit NInf)
             (Switch (Eq (Leaf value) (Leaf ub))
                (if startswith (dtype base_rv) ''int''
                 then Logaddexp (Log1mexp (Logcdf bop ins (Leaf value))) (Logprob bop ins (Leaf value))
                 else Log1mexp (Logcdf bop ins (Leaf value)))
                (Switch (Gt (Leaf value) (Leaf ub)) (Lit NInf) (Logprob bop ins (Leaf value))))))
       (All (Le (Leaf lb) (Leaf ub))))"
  using assms by (simp add: clip_logprob_def Let_def)

lemma clip_logprob_upper_only:
  assumes "owner base_rv = Some (bop, ins)"
    and "\<not> is_lower_bounded lb" "is_upper_bounded ub"
  shows "clip_logprob opr [value] base_rv lb ub =
     Inr (Switch (Eq (Leaf value) (Leaf ub))
            (if startswith (dtype base_rv) ''int''
             then Logaddexp (Log1mexp (Logcdf bop ins (Leaf value))) (Logprob bop ins (Leaf value))
             else Log1mexp (Logcdf bop ins (Leaf value)))
            (Switch (Gt (Leaf value) (Leaf ub)) (Lit NInf) (Logprob bop ins (Leaf value))))"
  using assms by (simp add: clip_logprob_def Let_def)

lemma clip_logprob_lower_only:
  assumes "owner base_rv = Some (bop, ins)"
    and "is_lower_bounded lb" "\<not> is_upper_bounded ub"
  shows "clip_logprob opr [value] base_rv lb ub =
     Inr (Switch (Eq (Leaf value) (Leaf lb)) (Logcdf bop ins (Leaf value))
            (Switch (Lt (Leaf value) (Leaf lb)) (Lit NInf) (Logprob bop ins (Leaf value))))"
  using assms by (simp add: clip_logprob_def Let_def)

lemma clip_logprob_unbounded:
  assumes "owner base_rv = Some (bop, ins)"
    and "\<not> is_lower_bounded lb" "\<not> is_upper_bounded ub"
  shows "clip_logprob opr [value] base_rv lb ub = Inr (Logprob bop ins (Leaf value))"
  using assms by (simp add: clip_logprob_def Let_def)

text \<open>The value of the two-sided graph, when the check passes and when it does not.\<close>

lemma eval_both:
  assumes own: "owner base_rv = Some (bop, ins)"
    and lbd: "is_lower_bounded lb" and ubd: "is_upper_bounded ub"
    and v: "bget (tensor_of env value) i = Inr v"
    and lo: "bget (tensor_of env lb) i = Inr lo"
    and hi: "bget (tensor_of env ub) i = Inr hi"
    and g: "eval s env (All (Le (Leaf lb) (Leaf ub))) 0 = Inr (Fin 1)"
  shows "logp_at s env (clip_logprob opr [value] base_rv lb ub) i =
    Inr (if fl_eq v lo then logcdf_sem s (dispatch_class bop) ins v
         else if fl_lt v lo then NInf
         else if fl_eq v hi then
           (if startswith (dtype base_rv) ''int''
            then logaddexp_sem s (log1mexp_sem s (logcdf_sem s (dispatch_class bop) ins v))
                   (logprob_sem s (dispatch_class bop) ins v)
            else log1mexp_sem s (logcdf_sem s (dispatch_class bop) ins v))
         else if fl_gt v hi then NInf
         else logprob_sem s (dispatch_class bop) ins v)"
  unfolding clip_logprob_both [OF own lbd ubd] logp_at_def sum.case check_pass [OF g]
  by (simp add: v lo hi lift1_def lift2_def lift3_def)

lemma eval_both_violated:
  assumes own: "owner base_rv = Some (bop, ins)"
    and lbd: "is_lower_bounded lb" and ubd: "is_upper_bounded ub"
    and v: "bget (tensor_of env value) i = Inr v"
    and lo: "bget (tensor_of env lb) i = Inr lo"
    and hi: "bget (tensor_of env ub) i = Inr hi"
    and g: "eval s env (All (Le (Leaf lb) (Leaf ub))) 0 = Inr (Fin 0)"
  shows "logp_at s env (clip_logprob opr [value] base_rv lb ub) i =
    Inl (ParameterValueError ''lower_bound <= upper_bound'')"
proof -
  have "\<exists>x. eval s env
       (Switch (Eq (Leaf value) (Leaf lb)) (Logcdf bop ins (Leaf value))
          (Switch (Lt (Leaf value) (Leaf lb)) (Lit NInf)
             (Switch (Eq (Leaf value) (Leaf ub))
                (if startswith (dtype base_rv) ''int''
                 then Logaddexp (Log1mexp (Logcdf bop ins (Leaf value))) (Logprob bop ins (Leaf value))
                 else Log1mexp (Logcdf bop ins (Leaf value)))
                (Switch (Gt (Leaf value) (Leaf ub)) (Lit NInf) (Logprob bop ins (Leaf value)))))) i
     = Inr x"
    by (simp add: v lo hi lift1_def lift2_def lift3_def)
  then obtain x where x: "eval s env
       (Switch (Eq (Leaf value) (Leaf lb)) (Logcdf bop ins (Leaf value))
          (Switch (Lt (Leaf value) (Leaf lb)) (Lit NInf)
             (Switch (Eq (Leaf value) (Leaf ub))
                (if startswith (dtype base_rv) ''int''
                 then Logaddexp (Log1mexp (Logcdf bop ins (Leaf value))) (Logprob bop ins (Leaf value))
                 else Log1mexp (Logcdf bop ins (Leaf value)))
                (Switch (Gt (Leaf value) (Leaf ub)) (Lit NInf) (Logprob bop ins (Leaf value)))))) i
     = Inr x" ..
  show ?thesis
    unfolding clip_logprob_both [OF own lbd ubd] logp_at_def sum.case
    by (rule check_fail [OF g x])
qed

text \<open>Unfolding the concrete graphs of the tests.\<close>

lemmas ex_defs = x_rv_def n_rv_def u_rv_def x_vec_def value_var_def value_vec_def num_def vec_def
  env_of_def owner_def
  bget_def is_upper_bounded_def is_lower_bounded_def is_TensorConstant_def const_value_def
  isinf_def isneginf_def startswith_def

lemma guard_scalar:
  "eval s env (All (Le (Leaf (num a [lo])) (Leaf (num b [hi])))) 0 = Inr (of_truth (fl_le lo hi))"
  by (simp add: num_def bsize_def bget_def lift2_def of_truth_def truthy_def)

text \<open>
  Claim C1, as amended. A clipped continuous variable with two bounds that both count:
  provided \<open>lower_bound <= upper_bound\<close> holds at every entry (otherwise the evaluation
  fails in the runtime check), the log-density at an observed value \<open>v\<close> is minus
  infinity when \<open>v\<close> is below the lower or above the upper bound, the base log-CDF at \<open>v\<close>
  when \<open>v\<close> equals the lower bound, \<open>log1mexp\<close> of the base log-CDF at \<open>v\<close> when \<open>v\<close> equals
  the upper bound and not the lower one, and the base log-probability at \<open>v\<close> strictly
  between the bounds.
\<close>

theorem clip_logprob_two_sided_continuous:
  assumes own: "owner base_rv = Some (bop, ins)"
    and flt: "startswith (dtype base_rv) ''float''"
    and lbd: "is_lower_bounded lb" and ubd: "is_upper_bounded ub"
    and v: "bget (tensor_of env value) i = Inr v"
    and lo: "bget (tensor_of env lb) i = Inr lo"
    and hi: "bget (tensor_of env ub) i = Inr hi"
    and g: "eval s env (All (Le (Leaf lb) (Leaf ub))) 0 = Inr (Fin 1)"
  shows "\<exists>r. logp_at s env (clip_logprob opr [value] base_rv lb ub) i = Inr r \<and>
     (fl_lt v lo \<or> fl_gt v hi \<longrightarrow> r = NInf) \<and>
     (fl_eq v lo \<longrightarrow> r = logcdf_sem s (dispatch_class bop) ins v) \<and>
     (fl_eq v hi \<and> \<not> fl_eq v lo \<longrightarrow>
        r = log1mexp_sem s (logcdf_sem s (dispatch_class bop) ins v)) \<and>
     (fl_lt lo v \<and> fl_lt v hi \<longrightarrow> r = logprob_sem s (dispatch_class bop) ins v)"
proof -
  from flt have nint: "\<not> startswith (dtype base_rv) ''int''"
    by (rule startswith_float_not_int)
  have le: "fl_le lo hi" by (rule guard_entry [OF g lo hi])
  show ?thesis
    unfolding eval_both [OF own lbd ubd v lo hi g]
    using fl_order(1) [OF le, of v] fl_order(2) [OF le, of v]
      fl_order(3) [of lo v] fl_order(4) [of v hi] nint
    by auto
qed

text \<open>The test \<open>test_continuous_rv_clip\<close> at the value 0, between the bounds -2 and 2.\<close>

theorem clip_logprob_two_sided_continuous_witness:
  "logp_at reference_sem (env_of [(10, [Fin 0])])
     (clip_logprob (MeasurableClip Clip) [value_var 10 ''cens_x''] x_rv
        (num 3 [Fin (- 2)]) (num 4 [Fin 2])) 0
   = Inr (logprob_sem reference_sem (RandomVariable ''logistic'') [] (Fin 0))"
proof -
  have own: "owner x_rv = Some (RandomVariable ''logistic'', [])"
    by (simp add: ex_defs)
  have flt: "startswith (dtype x_rv) ''float''" by (simp add: ex_defs)
  have lbd: "is_lower_bounded (num 3 [Fin (- 2)])" by (simp add: ex_defs)
  have ubd: "is_upper_bounded (num 4 [Fin 2])" by (simp add: ex_defs)
  have v: "bget (tensor_of (env_of [(10, [Fin 0])]) (value_var 10 ''cens_x'')) 0 = Inr (Fin 0)"
    by (simp add: ex_defs)
  have lo: "bget (tensor_of (env_of [(10, [Fin 0])]) (num 3 [Fin (- 2)])) 0 = Inr (Fin (- 2))"
    by (simp add: ex_defs)
  have hi: "bget (tensor_of (env_of [(10, [Fin 0])]) (num 4 [Fin 2])) 0 = Inr (Fin 2)"
    by (simp add: ex_defs)
  have g: "eval reference_sem (env_of [(10, [Fin 0])])
      (All (Le (Leaf (num 3 [Fin (- 2)])) (Leaf (num 4 [Fin 2])))) 0 = Inr (Fin 1)"
    unfolding guard_scalar by (simp add: fl_le_def fl_lt_def)
  from clip_logprob_two_sided_continuous [OF own flt lbd ubd v lo hi g,
      of "MeasurableClip Clip"]
  show ?thesis by (auto simp: fl_lt_def)
qed

text \<open>For the logistic distribution the mass below 1 and the mass above 1 differ.\<close>

lemma logistic_boundary_masses_differ:
  "logcdf_sem reference_sem (RandomVariable ''logistic'') [] (Fin 1) \<noteq>
   log1mexp_sem reference_sem (logcdf_sem reference_sem (RandomVariable ''logistic'') [] (Fin 1))"
proof -
  define e :: real where "e = exp (- 1)"
  have e: "0 < e" "e < 1" by (simp_all add: e_def)
  define c :: real where "c = 1 / (1 + e)"
  have c: "0 < c" "c < 1" using e by (simp_all add: c_def)
  have "1 - c = e / (1 + e)" using e by (simp add: c_def field_simps)
  also have "\<dots> < c" using e by (simp add: c_def divide_strict_right_mono)
  finally have lt: "1 - c < c" .
  have "ln (1 - c) < ln c" using lt c by simp
  then have ne: "ln c \<noteq> ln (1 - c)" by simp
  have l: "logcdf_sem reference_sem (RandomVariable ''logistic'') [] (Fin 1) = Fin (ln c)"
    using c by (simp add: reference_sem_def logistic_cdf_def fl_log_def c_def e_def)
  have "exp (ln c) = c" using c by simp
  then have r: "log1mexp_sem reference_sem (Fin (ln c)) = Fin (ln (1 - c))"
    using c by (simp add: reference_sem_def fl_log_def fl_sub_def fl_add_def fl_neg_def fl_exp_def)
  show ?thesis unfolding l r using ne by simp
qed

text \<open>
  Claim C1 as stated fails twice. With the bounds 2 and -2 the value 0 is below the lower
  bound, and the evaluation raises instead of giving minus infinity. With both bounds 1 the
  value 1 equals the upper bound, and the density is the base log-CDF, not \<open>log1mexp\<close> of
  it.
\<close>

theorem clip_logprob_inverted_bounds_counterexample:
  "fl_lt (Fin 0) (Fin 2) \<and>
   logp_at reference_sem (env_of [(10, [Fin 0])])
     (clip_logprob (MeasurableClip Clip) [value_var 10 ''cens_x''] x_rv
        (num 3 [Fin 2]) (num 4 [Fin (- 2)])) 0
   = Inl (ParameterValueError ''lower_bound <= upper_bound'') \<and>
   fl_eq (Fin 1) (Fin 1) \<and>
   logp_at reference_sem (env_of [(10, [Fin 1])])
     (clip_logprob (MeasurableClip Clip) [value_var 10 ''cens_x''] x_rv
        (num 3 [Fin 1]) (num 4 [Fin 1])) 0
   \<noteq> Inr (log1mexp_sem reference_sem
            (logcdf_sem reference_sem (RandomVariable ''logistic'') [] (Fin 1)))"
proof -
  have own: "owner x_rv = Some (RandomVariable ''logistic'', [])"
    by (simp add: ex_defs)
  have lbd: "is_lower_bounded (num 3 [Fin 2])" by (simp add: ex_defs)
  have ubd: "is_upper_bounded (num 4 [Fin (- 2)])" by (simp add: ex_defs)
  have v: "bget (tensor_of (env_of [(10, [Fin 0])]) (value_var 10 ''cens_x'')) 0 = Inr (Fin 0)"
    by (simp add: ex_defs)
  have lo: "bget (tensor_of (env_of [(10, [Fin 0])]) (num 3 [Fin 2])) 0 = Inr (Fin 2)"
    by (simp add: ex_defs)
  have hi: "bget (tensor_of (env_of [(10, [Fin 0])]) (num 4 [Fin (- 2)])) 0 = Inr (Fin (- 2))"
    by (simp add: ex_defs)
  have g: "eval reference_sem (env_of [(10, [Fin 0])])
      (All (Le (Leaf (num 3 [Fin 2])) (Leaf (num 4 [Fin (- 2)])))) 0 = Inr (Fin 0)"
    unfolding guard_scalar by (simp add: fl_le_def fl_lt_def fl_eq_def)
  have a: "logp_at reference_sem (env_of [(10, [Fin 0])])
     (clip_logprob (MeasurableClip Clip) [value_var 10 ''cens_x''] x_rv
        (num 3 [Fin 2]) (num 4 [Fin (- 2)])) 0
   = Inl (ParameterValueError ''lower_bound <= upper_bound'')"
    by (rule eval_both_violated [OF own lbd ubd v lo hi g])
  have lbd1: "is_lower_bounded (num 3 [Fin 1])" by (simp add: ex_defs)
  have ubd1: "is_upper_bounded (num 4 [Fin 1])" by (simp add: ex_defs)
  have v1: "bget (tensor_of (env_of [(10, [Fin 1])]) (value_var 10 ''cens_x'')) 0 = Inr (Fin 1)"
    by (simp add: ex_defs)
  have lo1: "bget (tensor_of (env_of [(10, [Fin 1])]) (num 3 [Fin 1])) 0 = Inr (Fin 1)"
    by (simp add: ex_defs)
  have hi1: "bget (tensor_of (env_of [(10, [Fin 1])]) (num 4 [Fin 1])) 0 = Inr (Fin 1)"
    by (simp add: ex_defs)
  have g1: "eval reference_sem (env_of [(10, [Fin 1])])
      (All (Le (Leaf (num 3 [Fin 1])) (Leaf (num 4 [Fin 1])))) 0 = Inr (Fin 1)"
    unfolding guard_scalar by (simp add: fl_le_def fl_eq_def)
  have b: "logp_at reference_sem (env_of [(10, [Fin 1])])
     (clip_logprob (MeasurableClip Clip) [value_var 10 ''cens_x''] x_rv
        (num 3 [Fin 1]) (num 4 [Fin 1])) 0
   = Inr (logcdf_sem reference_sem (RandomVariable ''logistic'') [] (Fin 1))"
    unfolding eval_both [OF own lbd1 ubd1 v1 lo1 hi1 g1] by (simp add: fl_eq_def)
  show ?thesis
    unfolding a b using logistic_boundary_masses_differ by (simp add: fl_lt_def fl_eq_def)
qed

lemma fl_eq_upper:
  "fl_le lo hi \<Longrightarrow> fl_eq v hi \<Longrightarrow> \<not> fl_lt v lo"
  by (auto simp: fl_le_def fl_lt_def fl_eq_def split: fl.splits)

lemma eval_upper_only:
  assumes own: "owner base_rv = Some (bop, ins)"
    and lbd: "\<not> is_lower_bounded lb" and ubd: "is_upper_bounded ub"
    and v: "bget (tensor_of env value) i = Inr v"
    and hi: "bget (tensor_of env ub) i = Inr hi"
  shows "logp_at s env (clip_logprob opr [value] base_rv lb ub) i =
    Inr (if fl_eq v hi then
           (if startswith (dtype base_rv) ''int''
            then logaddexp_sem s (log1mexp_sem s (logcdf_sem s (dispatch_class bop) ins v))
                   (logprob_sem s (dispatch_class bop) ins v)
            else log1mexp_sem s (logcdf_sem s (dispatch_class bop) ins v))
         else if fl_gt v hi then NInf
         else logprob_sem s (dispatch_class bop) ins v)"
  unfolding clip_logprob_upper_only [OF own lbd ubd] logp_at_def sum.case
  by (simp add: v hi lift1_def lift2_def lift3_def)


text \<open>
  The discrete correction, where the code applies it. For a base variable whose dtype name
  starts with \<open>int\<close> and an upper bound that counts, the graph contains the switch on
  \<open>value == upper_bound\<close> whose selected branch is \<open>logaddexp(log1mexp(logcdf), logprob)\<close>;
  where the value equals the upper bound that branch evaluates to the
  log-sum-of-exponentials of the log-survival and the log-mass of the base at the upper
  bound, and it is the value of the whole graph unless the lower-bound switch takes
  precedence.
\<close>

lemma clip_logprob_discrete_upper_mass:
  assumes own: "owner base_rv = Some (bop, ins)"
    and int: "startswith (dtype base_rv) ''int''"
    and ubd: "is_upper_bounded ub"
    and v: "bget (tensor_of env value) i = Inr v"
    and hi: "bget (tensor_of env ub) i = Inr hi"
    and eq: "fl_eq v hi"
  shows "\<exists>e. clip_logprob opr [value] base_rv lb ub = Inr e \<and>
     occurs (Switch (Eq (Leaf value) (Leaf ub))
               (Logaddexp (Log1mexp (Logcdf bop ins (Leaf value))) (Logprob bop ins (Leaf value)))
               (Switch (Gt (Leaf value) (Leaf ub)) (Lit NInf) (Logprob bop ins (Leaf value)))) e \<and>
     eval s env
       (Logaddexp (Log1mexp (Logcdf bop ins (Leaf value))) (Logprob bop ins (Leaf value))) i =
       Inr (logaddexp_sem s (log1mexp_sem s (logcdf_sem s (dispatch_class bop) ins hi))
              (logprob_sem s (dispatch_class bop) ins hi)) \<and>
     (\<not> is_lower_bounded lb \<longrightarrow>
        eval s env e i =
          Inr (logaddexp_sem s (log1mexp_sem s (logcdf_sem s (dispatch_class bop) ins hi))
                 (logprob_sem s (dispatch_class bop) ins hi))) \<and>
     (is_lower_bounded lb \<and> eval s env (All (Le (Leaf lb) (Leaf ub))) 0 = Inr (Fin 1) \<and>
      bget (tensor_of env lb) i = Inr lo \<and> \<not> fl_eq v lo \<longrightarrow>
        eval s env e i =
          Inr (logaddexp_sem s (log1mexp_sem s (logcdf_sem s (dispatch_class bop) ins hi))
                 (logprob_sem s (dispatch_class bop) ins hi)))"
proof -
  from eq have vh: "v = hi" by (simp add: fl_eq_def)
  show ?thesis
  proof (cases "is_lower_bounded lb")
    case False
    from eval_upper_only [OF own False ubd v hi, of s opr] eq int
    show ?thesis
      unfolding clip_logprob_upper_only [OF own False ubd] logp_at_def sum.case
      using False v vh by (simp add: lift1_def lift2_def)
  next
    case True
    have branch: "eval s env
       (Logaddexp (Log1mexp (Logcdf bop ins (Leaf value))) (Logprob bop ins (Leaf value))) i =
       Inr (logaddexp_sem s (log1mexp_sem s (logcdf_sem s (dispatch_class bop) ins hi))
              (logprob_sem s (dispatch_class bop) ins hi))"
      using v vh by (simp add: lift1_def lift2_def)
    have whole: "logp_at s env (clip_logprob opr [value] base_rv lb ub) i =
          Inr (logaddexp_sem s (log1mexp_sem s (logcdf_sem s (dispatch_class bop) ins hi))
                 (logprob_sem s (dispatch_class bop) ins hi))"
      if g: "eval s env (All (Le (Leaf lb) (Leaf ub))) 0 = Inr (Fin 1)"
        and lo: "bget (tensor_of env lb) i = Inr lo" and ne: "\<not> fl_eq v lo"
    proof -
      have "fl_le lo hi" by (rule guard_entry [OF g lo hi])
      from fl_eq_upper [OF this eq] have "\<not> fl_lt v lo" .
      with eval_both [OF own True ubd v lo hi g, of opr] ne eq int vh
      show ?thesis by simp
    qed
    show ?thesis
      using branch whole True int
      unfolding clip_logprob_both [OF own True ubd] logp_at_def sum.case
      by simp
  qed
qed

text \<open>
  The test \<open>test_discrete_rv_clip\<close> with a geometric base and the bounds 1 and 4: at the
  value 4 the density is the log of P(X >= 4) = 1/16.
\<close>

lemma reference_upper_mass:
  "logaddexp_sem reference_sem
      (log1mexp_sem reference_sem (logcdf_sem reference_sem (RandomVariable ''geometric'') [] (Fin 4)))
      (logprob_sem reference_sem (RandomVariable ''geometric'') [] (Fin 4)) = Fin (ln (1 / 16))"
  by (simp add: reference_sem_def fl_log_def fl_sub_def fl_add_def fl_neg_def fl_exp_def
      geometric_cdf_def geometric_pmf_def power_divide)

lemma clip_logprob_discrete_upper_mass_int64:
  "logp_at reference_sem (env_of [(10, [Fin 4])])
     (clip_logprob (MeasurableClip Clip) [value_var 10 ''cens_n''] n_rv
        (num 3 [Fin 1]) (num 4 [Fin 4])) 0
   = Inr (Fin (ln (1 / 16)))"
proof -
  have own: "owner n_rv = Some (RandomVariable ''geometric'', [])"
    by (simp add: ex_defs)
  have int: "startswith (dtype n_rv) ''int''" by (simp add: ex_defs)
  have lbd: "is_lower_bounded (num 3 [Fin 1])" by (simp add: ex_defs)
  have ubd: "is_upper_bounded (num 4 [Fin 4])" by (simp add: ex_defs)
  have v: "bget (tensor_of (env_of [(10, [Fin 4])]) (value_var 10 ''cens_n'')) 0 = Inr (Fin 4)"
    by (simp add: ex_defs)
  have lo: "bget (tensor_of (env_of [(10, [Fin 4])]) (num 3 [Fin 1])) 0 = Inr (Fin 1)"
    by (simp add: ex_defs)
  have hi: "bget (tensor_of (env_of [(10, [Fin 4])]) (num 4 [Fin 4])) 0 = Inr (Fin 4)"
    by (simp add: ex_defs)
  have eq: "fl_eq (Fin 4) (Fin 4)" by (simp add: fl_eq_def)
  have g: "eval reference_sem (env_of [(10, [Fin 4])])
      (All (Le (Leaf (num 3 [Fin 1])) (Leaf (num 4 [Fin 4])))) 0 = Inr (Fin 1)"
    unfolding guard_scalar by (simp add: fl_le_def fl_lt_def)
  have ne: "\<not> fl_eq (Fin 4) (Fin 1)" by (simp add: fl_eq_def)
  from clip_logprob_discrete_upper_mass [OF own int ubd v hi eq,
      of "MeasurableClip Clip" "num 3 [Fin 1]" reference_sem "Fin 1"] lbd g lo ne
  show ?thesis
    by (auto simp: reference_upper_mass logp_at_def)
qed

lemma reference_upper_survival:
  "log1mexp_sem reference_sem
      (logcdf_sem reference_sem (RandomVariable ''geometric'') [] (Fin 4)) = Fin (ln (1 / 32))"
  by (simp add: reference_sem_def fl_log_def fl_sub_def fl_add_def fl_neg_def fl_exp_def
      geometric_cdf_def power_divide)

text \<open>
  Claim C2 against the code. The base variable \<open>u\<close> is discrete with the integer dtype
  \<open>uint8\<close>, whose name does not start with \<open>int\<close>: the branch selected at
  \<open>value == upper_bound\<close> is \<open>log1mexp(logcdf)\<close> alone, without the mass at the bound. With
  the geometric base and the bounds 1 and 4 the density at 4 is the log of P(X > 4) = 1/32,
  where the claim (and the comment in the code, for right clipped discrete variables)
  asks for \<open>logaddexp(log1mexp(logcdf), logprob)\<close>, the log of P(X >= 4) = 1/16.
\<close>

theorem clip_logprob_unsigned_dtype_upper_mass:
  "dtype u_rv = ''uint8'' \<and>
   clip_logprob (MeasurableClip Clip) [value_var 10 ''cens_u''] u_rv
     (num 3 [Fin 1]) (num 4 [Fin 4]) =
     Inr (CheckParameterValue ''lower_bound <= upper_bound''
       (Switch (Eq (Leaf (value_var 10 ''cens_u'')) (Leaf (num 3 [Fin 1])))
          (Logcdf (RandomVariable ''geometric'') [] (Leaf (value_var 10 ''cens_u'')))
          (Switch (Lt (Leaf (value_var 10 ''cens_u'')) (Leaf (num 3 [Fin 1]))) (Lit NInf)
             (Switch (Eq (Leaf (value_var 10 ''cens_u'')) (Leaf (num 4 [Fin 4])))
                (Log1mexp
                   (Logcdf (RandomVariable ''geometric'') [] (Leaf (value_var 10 ''cens_u''))))
                (Switch (Gt (Leaf (value_var 10 ''cens_u'')) (Leaf (num 4 [Fin 4]))) (Lit NInf)
                   (Logprob (RandomVariable ''geometric'') []
                      (Leaf (value_var 10 ''cens_u'')))))))
       (All (Le (Leaf (num 3 [Fin 1])) (Leaf (num 4 [Fin 4]))))) \<and>
   logp_at reference_sem (env_of [(10, [Fin 4])])
     (clip_logprob (MeasurableClip Clip) [value_var 10 ''cens_u''] u_rv
        (num 3 [Fin 1]) (num 4 [Fin 4])) 0 = Inr (Fin (ln (1 / 32))) \<and>
   logaddexp_sem reference_sem
      (log1mexp_sem reference_sem (logcdf_sem reference_sem (RandomVariable ''geometric'') [] (Fin 4)))
      (logprob_sem reference_sem (RandomVariable ''geometric'') [] (Fin 4)) = Fin (ln (1 / 16))"
proof -
  have own: "owner u_rv = Some (RandomVariable ''geometric'', [])"
    by (simp add: ex_defs)
  have nint: "\<not> startswith (dtype u_rv) ''int''" by (simp add: ex_defs startswith_def)
  have lbd: "is_lower_bounded (num 3 [Fin 1])"
    by (simp add: ex_defs is_lower_bounded_def is_TensorConstant_def const_value_def isneginf_def)
  have ubd: "is_upper_bounded (num 4 [Fin 4])"
    by (simp add: ex_defs is_upper_bounded_def is_TensorConstant_def const_value_def isinf_def)
  have v: "bget (tensor_of (env_of [(10, [Fin 4])]) (value_var 10 ''cens_u'')) 0 = Inr (Fin 4)"
    by (simp add: ex_defs bget_def)
  have lo: "bget (tensor_of (env_of [(10, [Fin 4])]) (num 3 [Fin 1])) 0 = Inr (Fin 1)"
    by (simp add: ex_defs bget_def)
  have hi: "bget (tensor_of (env_of [(10, [Fin 4])]) (num 4 [Fin 4])) 0 = Inr (Fin 4)"
    by (simp add: ex_defs bget_def)
  have g: "eval reference_sem (env_of [(10, [Fin 4])])
      (All (Le (Leaf (num 3 [Fin 1])) (Leaf (num 4 [Fin 4])))) 0 = Inr (Fin 1)"
    unfolding guard_scalar by (simp add: fl_le_def fl_lt_def)
  have d: "dtype u_rv = ''uint8''" by (simp add: ex_defs)
  have gr: "clip_logprob (MeasurableClip Clip) [value_var 10 ''cens_u''] u_rv
     (num 3 [Fin 1]) (num 4 [Fin 4]) =
     Inr (CheckParameterValue ''lower_bound <= upper_bound''
       (Switch (Eq (Leaf (value_var 10 ''cens_u'')) (Leaf (num 3 [Fin 1])))
          (Logcdf (RandomVariable ''geometric'') [] (Leaf (value_var 10 ''cens_u'')))
          (Switch (Lt (Leaf (value_var 10 ''cens_u'')) (Leaf (num 3 [Fin 1]))) (Lit NInf)
             (Switch (Eq (Leaf (value_var 10 ''cens_u'')) (Leaf (num 4 [Fin 4])))
                (Log1mexp
                   (Logcdf (RandomVariable ''geometric'') [] (Leaf (value_var 10 ''cens_u''))))
                (Switch (Gt (Leaf (value_var 10 ''cens_u'')) (Leaf (num 4 [Fin 4]))) (Lit NInf)
                   (Logprob (RandomVariable ''geometric'') []
                      (Leaf (value_var 10 ''cens_u'')))))))
       (All (Le (Leaf (num 3 [Fin 1])) (Leaf (num 4 [Fin 4])))))"
    unfolding clip_logprob_both [OF own lbd ubd] using nint by simp
  have ev: "logp_at reference_sem (env_of [(10, [Fin 4])])
     (clip_logprob (MeasurableClip Clip) [value_var 10 ''cens_u''] u_rv
        (num 3 [Fin 1]) (num 4 [Fin 4])) 0 = Inr (Fin (ln (1 / 32)))"
    unfolding eval_both [OF own lbd ubd v lo hi g] using nint
    by (simp add: fl_eq_def fl_lt_def reference_upper_survival)
  from d gr ev reference_upper_mass show ?thesis by blast
qed

text \<open>
  Claim C10, as amended. With two bounds that count the switch on the lower bound is the
  outermost node under the runtime check. Where the check passes (\<open>lower_bound <=
  upper_bound\<close> at every entry) and the value equals the lower bound, the result is the
  base log-CDF at the value, whatever the upper bound; so it is when both bounds and the
  value coincide.
\<close>

theorem clip_logprob_lower_bound_outermost:
  assumes own: "owner base_rv = Some (bop, ins)"
    and lbd: "is_lower_bounded lb" and ubd: "is_upper_bounded ub"
    and v: "bget (tensor_of env value) i = Inr v"
    and lo: "bget (tensor_of env lb) i = Inr lo"
    and hi: "bget (tensor_of env ub) i = Inr hi"
    and g: "eval s env (All (Le (Leaf lb) (Leaf ub))) 0 = Inr (Fin 1)"
    and eq: "fl_eq v lo"
  shows "(\<exists>rest. clip_logprob opr [value] base_rv lb ub =
            Inr (CheckParameterValue ''lower_bound <= upper_bound''
                   (Switch (Eq (Leaf value) (Leaf lb)) (Logcdf bop ins (Leaf value)) rest)
                   (All (Le (Leaf lb) (Leaf ub))))) \<and>
         logp_at s env (clip_logprob opr [value] base_rv lb ub) i =
           Inr (logcdf_sem s (dispatch_class bop) ins v)"
proof
  show "\<exists>rest. clip_logprob opr [value] base_rv lb ub =
            Inr (CheckParameterValue ''lower_bound <= upper_bound''
                   (Switch (Eq (Leaf value) (Leaf lb)) (Logcdf bop ins (Leaf value)) rest)
                   (All (Le (Leaf lb) (Leaf ub))))"
    unfolding clip_logprob_both [OF own lbd ubd] by blast
  show "logp_at s env (clip_logprob opr [value] base_rv lb ub) i =
           Inr (logcdf_sem s (dispatch_class bop) ins v)"
    unfolding eval_both [OF own lbd ubd v lo hi g] using eq by simp
qed

text \<open>Both bounds and the value are 1: the lower-boundary branch is returned.\<close>

theorem clip_logprob_lower_bound_outermost_witness:
  "logp_at reference_sem (env_of [(10, [Fin 1])])
     (clip_logprob (MeasurableClip Clip) [value_var 10 ''cens_x''] x_rv
        (num 3 [Fin 1]) (num 4 [Fin 1])) 0
   = Inr (logcdf_sem reference_sem (RandomVariable ''logistic'') [] (Fin 1))"
proof -
  have own: "owner x_rv = Some (RandomVariable ''logistic'', [])"
    by (simp add: ex_defs)
  have lbd: "is_lower_bounded (num 3 [Fin 1])" by (simp add: ex_defs)
  have ubd: "is_upper_bounded (num 4 [Fin 1])" by (simp add: ex_defs)
  have v: "bget (tensor_of (env_of [(10, [Fin 1])]) (value_var 10 ''cens_x'')) 0 = Inr (Fin 1)"
    by (simp add: ex_defs)
  have lo: "bget (tensor_of (env_of [(10, [Fin 1])]) (num 3 [Fin 1])) 0 = Inr (Fin 1)"
    by (simp add: ex_defs)
  have hi: "bget (tensor_of (env_of [(10, [Fin 1])]) (num 4 [Fin 1])) 0 = Inr (Fin 1)"
    by (simp add: ex_defs)
  have g: "eval reference_sem (env_of [(10, [Fin 1])])
      (All (Le (Leaf (num 3 [Fin 1])) (Leaf (num 4 [Fin 1])))) 0 = Inr (Fin 1)"
    unfolding guard_scalar by (simp add: fl_le_def fl_eq_def)
  have eq: "fl_eq (Fin 1) (Fin 1)" by (simp add: fl_eq_def)
  from clip_logprob_lower_bound_outermost [OF own lbd ubd v lo hi g eq,
      of "MeasurableClip Clip"]
  show ?thesis by simp
qed

text \<open>
  Claim C10 as stated fails: the value 2 equals the lower bound 2 and is above the upper
  bound 1, and the evaluation raises instead of giving the base log-CDF.
\<close>

theorem clip_logprob_lower_above_upper_counterexample:
  "fl_eq (Fin 2) (Fin 2) \<and>
   logp_at reference_sem (env_of [(10, [Fin 2])])
     (clip_logprob (MeasurableClip Clip) [value_var 10 ''cens_x''] x_rv
        (num 3 [Fin 2]) (num 4 [Fin 1])) 0
   = Inl (ParameterValueError ''lower_bound <= upper_bound'')"
proof -
  have own: "owner x_rv = Some (RandomVariable ''logistic'', [])"
    by (simp add: ex_defs)
  have lbd: "is_lower_bounded (num 3 [Fin 2])" by (simp add: ex_defs)
  have ubd: "is_upper_bounded (num 4 [Fin 1])" by (simp add: ex_defs)
  have v: "bget (tensor_of (env_of [(10, [Fin 2])]) (value_var 10 ''cens_x'')) 0 = Inr (Fin 2)"
    by (simp add: ex_defs)
  have lo: "bget (tensor_of (env_of [(10, [Fin 2])]) (num 3 [Fin 2])) 0 = Inr (Fin 2)"
    by (simp add: ex_defs)
  have hi: "bget (tensor_of (env_of [(10, [Fin 2])]) (num 4 [Fin 1])) 0 = Inr (Fin 1)"
    by (simp add: ex_defs)
  have g: "eval reference_sem (env_of [(10, [Fin 2])])
      (All (Le (Leaf (num 3 [Fin 2])) (Leaf (num 4 [Fin 1])))) 0 = Inr (Fin 0)"
    unfolding guard_scalar by (simp add: fl_le_def fl_lt_def fl_eq_def)
  show ?thesis
    using eval_both_violated [OF own lbd ubd v lo hi g, of "MeasurableClip Clip"]
    by (simp add: fl_eq_def)
qed

text \<open>The runtime check, by cases of its operands.\<close>

lemma check_cases:
  "eval s env (CheckParameterValue msg a (All d)) i =
     (case eval s env a i of
        Inl e \<Rightarrow> Inl e
      | Inr x \<Rightarrow>
         (case eval s env (All d) 0 of
            Inl e \<Rightarrow> Inl e
          | Inr t \<Rightarrow> if truthy t then Inr x else Inl (ParameterValueError msg)))"
  by (auto split: sum.splits simp: truthy_def of_truth_def check_parameter_value_def)

lemma guard_not_true:
  assumes l: "bget (tensor_of env lb) j = Inr l"
    and u: "bget (tensor_of env ub) j = Inr u"
    and n: "\<not> fl_le l u"
  shows "eval s env (All (Le (Leaf lb) (Leaf ub))) 0 \<noteq> Inr (Fin 1)"
proof
  assume "eval s env (All (Le (Leaf lb) (Leaf ub))) 0 = Inr (Fin 1)"
  from guard_entry [OF this l u] n show False by simp
qed

lemma all_value:
  "eval s env (All d) k = Inr t \<Longrightarrow> t = Fin 1 \<or> t = Fin 0"
  by (auto split: sum.splits if_splits simp: of_truth_def)

lemma guard_violated:
  assumes l: "bget (tensor_of env lb) j = Inr l"
    and u: "bget (tensor_of env ub) j = Inr u"
    and n: "\<not> fl_le l u"
  shows "\<exists>err. eval s env (CheckParameterValue msg a (All (Le (Leaf lb) (Leaf ub)))) i = Inl err"
proof (cases "eval s env a i")
  case (Inl e)
  then show ?thesis unfolding check_cases by simp
next
  case a: (Inr x)
  show ?thesis
  proof (cases "eval s env (All (Le (Leaf lb) (Leaf ub))) 0")
    case (Inl e)
    with a show ?thesis unfolding check_cases by simp
  next
    case (Inr t)
    from all_value [OF Inr] guard_not_true [OF l u n, of s] Inr have "t = Fin 0" by auto
    with a Inr show ?thesis unfolding check_cases by (simp add: truthy_def)
  qed
qed

text \<open>
  Claim C4, as amended. The graph contains a runtime check exactly when the lower bound is
  not a constant whose entries are all minus infinity and the upper bound is not a constant
  whose entries are all infinite. The check then wraps the whole graph, its condition is
  \<open>lower_bound <= upper_bound\<close> at all entries, and an evaluation in which some entry of the
  bounds violates it fails instead of returning a density. A constant lower bound of plus
  infinity is no sentinel: it gets the check.
\<close>

theorem clip_logprob_bound_check:
  assumes own: "owner base_rv = Some (bop, ins)"
  shows "\<exists>e. clip_logprob opr [value] base_rv lb ub = Inr e \<and>
     (has_check e \<longleftrightarrow> is_lower_bounded lb \<and> is_upper_bounded ub) \<and>
     (is_lower_bounded lb \<and> is_upper_bounded ub \<longrightarrow>
        (\<exists>inner. e = CheckParameterValue ''lower_bound <= upper_bound'' inner
                        (All (Le (Leaf lb) (Leaf ub))) \<and> \<not> has_check inner) \<and>
        (\<forall>s env i j l u.
            bget (tensor_of env lb) j = Inr l \<and> bget (tensor_of env ub) j = Inr u \<and>
            \<not> fl_le l u \<longrightarrow> (\<exists>err. eval s env e i = Inl err)))"
proof (cases "is_lower_bounded lb"; cases "is_upper_bounded ub")
  assume b: "is_lower_bounded lb" "is_upper_bounded ub"
  let ?inner = "Switch (Eq (Leaf value) (Leaf lb)) (Logcdf bop ins (Leaf value))
          (Switch (Lt (Leaf value) (Leaf lb)) (Lit NInf)
             (Switch (Eq (Leaf value) (Leaf ub))
                (if startswith (dtype base_rv) ''int''
                 then Logaddexp (Log1mexp (Logcdf bop ins (Leaf value))) (Logprob bop ins (Leaf value))
                 else Log1mexp (Logcdf bop ins (Leaf value)))
                (Switch (Gt (Leaf value) (Leaf ub)) (Lit NInf) (Logprob bop ins (Leaf value)))))"
  let ?e = "CheckParameterValue ''lower_bound <= upper_bound'' ?inner (All (Le (Leaf lb) (Leaf ub)))"
  have e: "clip_logprob opr [value] base_rv lb ub = Inr ?e"
    by (rule clip_logprob_both [OF own b])
  have nc: "\<not> has_check ?inner" by simp
  have hc: "has_check ?e" by simp
  have fails: "\<exists>err. eval s env ?e i = Inl err"
    if "bget (tensor_of env lb) j = Inr l \<and> bget (tensor_of env ub) j = Inr u \<and> \<not> fl_le l u"
    for s env i j l u
    using that guard_violated by blast
  from e nc hc fails b show ?thesis by blast
next
  assume b: "is_lower_bounded lb" "\<not> is_upper_bounded ub"
  show ?thesis
    unfolding clip_logprob_lower_only [OF own b] using b by simp
next
  assume b: "\<not> is_lower_bounded lb" "is_upper_bounded ub"
  show ?thesis
    unfolding clip_logprob_upper_only [OF own b] using b by simp
next
  assume b: "\<not> is_lower_bounded lb" "\<not> is_upper_bounded ub"
  show ?thesis
    unfolding clip_logprob_unbounded [OF own b] using b by simp
qed

text \<open>
  The bounds 2 and -2: the check is there and the evaluation fails. The lower bound minus
  infinity: no check.
\<close>

theorem clip_logprob_bound_check_witness:
  "(case clip_logprob (MeasurableClip Clip) [value_var 10 ''cens_x''] x_rv
           (num 3 [Fin 2]) (num 4 [Fin (- 2)]) of
      Inl err \<Rightarrow> False
    | Inr e \<Rightarrow> has_check e \<and>
        (\<exists>err. eval reference_sem (env_of [(10, [Fin 0])]) e 0 = Inl err)) \<and>
   (case clip_logprob (MeasurableClip Clip) [value_var 10 ''cens_x''] x_rv
           (num 3 [NInf]) (num 4 [Fin (- 2)]) of
      Inl err \<Rightarrow> False
    | Inr e \<Rightarrow> \<not> has_check e)"
proof -
  have own: "owner x_rv = Some (RandomVariable ''logistic'', [])"
    by (simp add: ex_defs)
  have lbd: "is_lower_bounded (num 3 [Fin 2])" by (simp add: ex_defs)
  have nlbd: "\<not> is_lower_bounded (num 3 [NInf])" by (simp add: ex_defs)
  have ubd: "is_upper_bounded (num 4 [Fin (- 2)])" by (simp add: ex_defs)
  have lo: "bget (tensor_of (env_of [(10, [Fin 0])]) (num 3 [Fin 2])) 0 = Inr (Fin 2)"
    by (simp add: ex_defs)
  have hi: "bget (tensor_of (env_of [(10, [Fin 0])]) (num 4 [Fin (- 2)])) 0 = Inr (Fin (- 2))"
    by (simp add: ex_defs)
  have n: "\<not> fl_le (Fin 2) (Fin (- 2))" by (simp add: fl_le_def fl_lt_def fl_eq_def)
  from clip_logprob_bound_check [OF own, of "MeasurableClip Clip" "value_var 10 ''cens_x''"
      "num 3 [Fin 2]" "num 4 [Fin (- 2)]"]
  obtain e where e: "clip_logprob (MeasurableClip Clip) [value_var 10 ''cens_x''] x_rv
           (num 3 [Fin 2]) (num 4 [Fin (- 2)]) = Inr e"
    and hc: "has_check e \<longleftrightarrow> is_lower_bounded (num 3 [Fin 2]) \<and> is_upper_bounded (num 4 [Fin (- 2)])"
    and fails: "is_lower_bounded (num 3 [Fin 2]) \<and> is_upper_bounded (num 4 [Fin (- 2)]) \<longrightarrow>
        (\<exists>inner. e = CheckParameterValue ''lower_bound <= upper_bound'' inner
                        (All (Le (Leaf (num 3 [Fin 2])) (Leaf (num 4 [Fin (- 2)])))) \<and>
                  \<not> has_check inner) \<and>
        (\<forall>s env i j l u.
            bget (tensor_of env (num 3 [Fin 2])) j = Inr l \<and>
            bget (tensor_of env (num 4 [Fin (- 2)])) j = Inr u \<and>
            \<not> fl_le l u \<longrightarrow> (\<exists>err. eval s env e i = Inl err))"
    by blast
  from fails lbd ubd lo hi n
  have "\<exists>err. eval reference_sem (env_of [(10, [Fin 0])]) e 0 = Inl err"
    by blast
  with e hc lbd ubd
  have a: "case clip_logprob (MeasurableClip Clip) [value_var 10 ''cens_x''] x_rv
           (num 3 [Fin 2]) (num 4 [Fin (- 2)]) of
      Inl err \<Rightarrow> False
    | Inr e \<Rightarrow> has_check e \<and>
        (\<exists>err. eval reference_sem (env_of [(10, [Fin 0])]) e 0 = Inl err)"
    by simp
  from clip_logprob_bound_check [OF own, of "MeasurableClip Clip" "value_var 10 ''cens_x''"
      "num 3 [NInf]" "num 4 [Fin (- 2)]"] nlbd
  have b: "case clip_logprob (MeasurableClip Clip) [value_var 10 ''cens_x''] x_rv
           (num 3 [NInf]) (num 4 [Fin (- 2)]) of
      Inl err \<Rightarrow> False
    | Inr e \<Rightarrow> \<not> has_check e"
    by auto
  from a b show ?thesis by blast
qed

text \<open>
  Claim C4 as stated fails: the lower bound is a constant all of whose entries are
  infinite, and the check is inserted all the same.
\<close>

theorem clip_logprob_infinite_lower_constant_counterexample:
  "is_TensorConstant (num 3 [PInf]) \<and> list_all isinf (const_value (num 3 [PInf])) \<and>
   (case clip_logprob (MeasurableClip Clip) [value_var 10 ''cens_x''] x_rv
           (num 3 [PInf]) (num 4 [Fin 5]) of
      Inl err \<Rightarrow> False
    | Inr e \<Rightarrow> has_check e)"
proof -
  have own: "owner x_rv = Some (RandomVariable ''logistic'', [])"
    by (simp add: ex_defs)
  have lbd: "is_lower_bounded (num 3 [PInf])" by (simp add: ex_defs)
  have ubd: "is_upper_bounded (num 4 [Fin 5])" by (simp add: ex_defs)
  show ?thesis
    unfolding clip_logprob_both [OF own lbd ubd]
    by (simp add: ex_defs)
qed

section \<open>Rounded variables\<close>

lemma round_half_even_of_int [simp]: "round_half_even (of_int k) = of_int k"
  by (simp add: round_half_even_def)

lemma round_half_even_integral: "\<exists>k. round_half_even r = of_int k"
proof -
  have "round_half_even r \<in> \<int>" by (simp add: round_half_even_def Let_def)
  then show ?thesis by (auto elim: Ints_cases)
qed

lemma fl_round_idem [simp]: "fl_round (fl_round v) = fl_round v"
proof (cases v)
  case (Fin r)
  from round_half_even_integral obtain k where "round_half_even r = of_int k" by blast
  with Fin show ?thesis by (simp add: fl_round_def)
qed (simp_all add: fl_round_def)

lemma fl_floor_idem [simp]: "fl_floor (fl_floor v) = fl_floor v"
  by (cases v) (simp_all add: fl_floor_def)

lemma fl_ceil_idem [simp]: "fl_ceil (fl_ceil v) = fl_ceil v"
  by (cases v) (simp_all add: fl_ceil_def)

lemma round_logprob_round:
  assumes "owner base_rv = Some (bop, ins)" and "scalar_op_of opr = Some RoundHalfToEven"
  shows "round_logprob opr [value] base_rv =
     Inr (Logdiffexp (Logcdf bop ins (Add (RoundE (Leaf value)) (Lit (Fin (1 / 2)))))
                     (Logcdf bop ins (Sub (RoundE (Leaf value)) (Lit (Fin (1 / 2))))))"
  using assms by (simp add: round_logprob_def Let_def)

lemma round_logprob_floor:
  assumes "owner base_rv = Some (bop, ins)" and "scalar_op_of opr = Some Floor"
  shows "round_logprob opr [value] base_rv =
     Inr (Logdiffexp (Logcdf bop ins (Add (FloorE (Leaf value)) (Lit (Fin 1))))
                     (Logcdf bop ins (FloorE (Leaf value))))"
  using assms by (simp add: round_logprob_def Let_def)

lemma round_logprob_ceil:
  assumes "owner base_rv = Some (bop, ins)" and "scalar_op_of opr = Some Ceil"
  shows "round_logprob opr [value] base_rv =
     Inr (Logdiffexp (Logcdf bop ins (CeilE (Leaf value)))
                     (Logcdf bop ins (Sub (CeilE (Leaf value)) (Lit (Fin 1)))))"
  using assms by (simp add: round_logprob_def Let_def)

lemma eval_round:
  assumes own: "owner base_rv = Some (bop, ins)"
    and v: "bget (tensor_of env value) i = Inr v"
  shows "scalar_op_of opr = Some RoundHalfToEven \<Longrightarrow>
      logp_at s env (round_logprob opr [value] base_rv) i =
        Inr (logdiffexp_sem s
               (logcdf_sem s (dispatch_class bop) ins (add_sem s (fl_round v) (Fin (1 / 2))))
               (logcdf_sem s (dispatch_class bop) ins (sub_sem s (fl_round v) (Fin (1 / 2)))))"
    and "scalar_op_of opr = Some Floor \<Longrightarrow>
      logp_at s env (round_logprob opr [value] base_rv) i =
        Inr (logdiffexp_sem s
               (logcdf_sem s (dispatch_class bop) ins (add_sem s (fl_floor v) (Fin 1)))
               (logcdf_sem s (dispatch_class bop) ins (fl_floor v)))"
    and "scalar_op_of opr = Some Ceil \<Longrightarrow>
      logp_at s env (round_logprob opr [value] base_rv) i =
        Inr (logdiffexp_sem s
               (logcdf_sem s (dispatch_class bop) ins (fl_ceil v))
               (logcdf_sem s (dispatch_class bop) ins (sub_sem s (fl_ceil v) (Fin 1))))"
  by (simp_all add: round_logprob_round [OF own] round_logprob_floor [OF own]
      round_logprob_ceil [OF own] logp_at_def v lift1_def lift2_def)

text \<open>
  Claim C5. At an observed value on the integer grid, \<open>round_logprob\<close> returns
  \<open>logdiffexp\<close> of the base log-CDF at two points, and never a difference of CDFs under a
  log: the points are \<open>v + 0.5\<close> and \<open>v - 0.5\<close> for round-to-even, \<open>v + 1.0\<close> and \<open>v\<close> for floor,
  \<open>v\<close> and \<open>v - 1.0\<close> for ceil, the sums and differences being those of floating point.
\<close>

theorem round_logprob_on_grid:
  assumes own: "owner base_rv = Some (bop, ins)"
    and v: "bget (tensor_of env value) i = Inr (Fin (of_int k))"
  shows "(scalar_op_of opr = Some RoundHalfToEven \<longrightarrow>
      round_logprob opr [value] base_rv =
        Inr (Logdiffexp (Logcdf bop ins (Add (RoundE (Leaf value)) (Lit (Fin (1 / 2)))))
                        (Logcdf bop ins (Sub (RoundE (Leaf value)) (Lit (Fin (1 / 2)))))) \<and>
      logp_at s env (round_logprob opr [value] base_rv) i =
        Inr (logdiffexp_sem s
               (logcdf_sem s (dispatch_class bop) ins (add_sem s (Fin (of_int k)) (Fin (1 / 2))))
               (logcdf_sem s (dispatch_class bop) ins (sub_sem s (Fin (of_int k)) (Fin (1 / 2)))))) \<and>
    (scalar_op_of opr = Some Floor \<longrightarrow>
      round_logprob opr [value] base_rv =
        Inr (Logdiffexp (Logcdf bop ins (Add (FloorE (Leaf value)) (Lit (Fin 1))))
                        (Logcdf bop ins (FloorE (Leaf value)))) \<and>
      logp_at s env (round_logprob opr [value] base_rv) i =
        Inr (logdiffexp_sem s
               (logcdf_sem s (dispatch_class bop) ins (add_sem s (Fin (of_int k)) (Fin 1)))
               (logcdf_sem s (dispatch_class bop) ins (Fin (of_int k))))) \<and>
    (scalar_op_of opr = Some Ceil \<longrightarrow>
      round_logprob opr [value] base_rv =
        Inr (Logdiffexp (Logcdf bop ins (CeilE (Leaf value)))
                        (Logcdf bop ins (Sub (CeilE (Leaf value)) (Lit (Fin 1))))) \<and>
      logp_at s env (round_logprob opr [value] base_rv) i =
        Inr (logdiffexp_sem s
               (logcdf_sem s (dispatch_class bop) ins (Fin (of_int k)))
               (logcdf_sem s (dispatch_class bop) ins (sub_sem s (Fin (of_int k)) (Fin 1)))))"
  using eval_round [OF own v, of opr s]
    round_logprob_round [OF own, of opr "value"] round_logprob_floor [OF own, of opr "value"]
    round_logprob_ceil [OF own, of opr "value"]
  by (simp add: fl_round_def fl_floor_def fl_ceil_def)

text \<open>The test \<open>test_rounding\<close> at the grid point -3, for the three kinds.\<close>

theorem round_logprob_on_grid_witness:
  "logp_at reference_sem (env_of [(10, [Fin (- 3)])])
     (round_logprob (MeasurableRound RoundHalfToEven) [value_var 10 ''xr''] x_rv) 0 =
     Inr (logdiffexp_sem reference_sem
            (logcdf_sem reference_sem (RandomVariable ''logistic'') [] (Fin (- 5 / 2)))
            (logcdf_sem reference_sem (RandomVariable ''logistic'') [] (Fin (- 7 / 2)))) \<and>
   logp_at reference_sem (env_of [(10, [Fin (- 3)])])
     (round_logprob (MeasurableRound Floor) [value_var 10 ''xr''] x_rv) 0 =
     Inr (logdiffexp_sem reference_sem
            (logcdf_sem reference_sem (RandomVariable ''logistic'') [] (Fin (- 2)))
            (logcdf_sem reference_sem (RandomVariable ''logistic'') [] (Fin (- 3)))) \<and>
   logp_at reference_sem (env_of [(10, [Fin (- 3)])])
     (round_logprob (MeasurableRound Ceil) [value_var 10 ''xr''] x_rv) 0 =
     Inr (logdiffexp_sem reference_sem
            (logcdf_sem reference_sem (RandomVariable ''logistic'') [] (Fin (- 3)))
            (logcdf_sem reference_sem (RandomVariable ''logistic'') [] (Fin (- 4))))"
proof -
  have own: "owner x_rv = Some (RandomVariable ''logistic'', [])"
    by (simp add: ex_defs)
  have v: "bget (tensor_of (env_of [(10, [Fin (- 3)])]) (value_var 10 ''xr'')) 0 =
      Inr (Fin (of_int (- 3)))"
    by (simp add: ex_defs)
  have ar: "add_sem reference_sem (Fin (- 3)) (Fin (1 / 2)) = Fin (- 5 / 2)"
    "sub_sem reference_sem (Fin (- 3)) (Fin (1 / 2)) = Fin (- 7 / 2)"
    "add_sem reference_sem (Fin (- 3)) (Fin 1) = Fin (- 2)"
    "sub_sem reference_sem (Fin (- 3)) (Fin 1) = Fin (- 4)"
    by (simp_all add: reference_sem_def fl_add_def fl_sub_def fl_neg_def)
  have k: "scalar_op_of (MeasurableRound RoundHalfToEven) = Some RoundHalfToEven"
    "scalar_op_of (MeasurableRound Floor) = Some Floor"
    "scalar_op_of (MeasurableRound Ceil) = Some Ceil"
    by simp_all
  have a: "logp_at reference_sem (env_of [(10, [Fin (- 3)])])
     (round_logprob (MeasurableRound RoundHalfToEven) [value_var 10 ''xr''] x_rv) 0 =
     Inr (logdiffexp_sem reference_sem
            (logcdf_sem reference_sem (dispatch_class (RandomVariable ''logistic'')) []
               (add_sem reference_sem (Fin (of_int (- 3))) (Fin (1 / 2))))
            (logcdf_sem reference_sem (dispatch_class (RandomVariable ''logistic'')) []
               (sub_sem reference_sem (Fin (of_int (- 3))) (Fin (1 / 2)))))"
    using round_logprob_on_grid [OF own v, of "MeasurableRound RoundHalfToEven" reference_sem]
      k(1) by blast
  have b: "logp_at reference_sem (env_of [(10, [Fin (- 3)])])
     (round_logprob (MeasurableRound Floor) [value_var 10 ''xr''] x_rv) 0 =
     Inr (logdiffexp_sem reference_sem
            (logcdf_sem reference_sem (dispatch_class (RandomVariable ''logistic'')) []
               (add_sem reference_sem (Fin (of_int (- 3))) (Fin 1)))
            (logcdf_sem reference_sem (dispatch_class (RandomVariable ''logistic'')) []
               (Fin (of_int (- 3)))))"
    using round_logprob_on_grid [OF own v, of "MeasurableRound Floor" reference_sem]
      k(2) by blast
  have c: "logp_at reference_sem (env_of [(10, [Fin (- 3)])])
     (round_logprob (MeasurableRound Ceil) [value_var 10 ''xr''] x_rv) 0 =
     Inr (logdiffexp_sem reference_sem
            (logcdf_sem reference_sem (dispatch_class (RandomVariable ''logistic'')) []
               (Fin (of_int (- 3))))
            (logcdf_sem reference_sem (dispatch_class (RandomVariable ''logistic'')) []
               (sub_sem reference_sem (Fin (of_int (- 3))) (Fin 1))))"
    using round_logprob_on_grid [OF own v, of "MeasurableRound Ceil" reference_sem]
      k(3) by blast
  show ?thesis
    unfolding a b c by (simp add: ar)
qed

text \<open>For the logistic distribution the mass of an interval is positive, and its log finite.\<close>

lemma reference_logistic_interval:
  assumes "a < b"
  shows "logdiffexp_sem reference_sem
      (logcdf_sem reference_sem (RandomVariable ''logistic'') [] (Fin b))
      (logcdf_sem reference_sem (RandomVariable ''logistic'') [] (Fin a)) =
    Fin (ln (1 / (1 + exp (- b)) - 1 / (1 + exp (- a))))"
proof -
  define ca where "ca = 1 / (1 + exp (- a))"
  define cb where "cb = 1 / (1 + exp (- b))"
  have pa: "0 < 1 + exp (- a)" and pb: "0 < 1 + exp (- b)"
    by (simp_all add: add_pos_pos)
  have ca: "0 < ca" and cb: "0 < cb" using pa pb by (simp_all add: ca_def cb_def)
  have "exp (- b) < exp (- a)" using assms by simp
  then have "1 + exp (- b) < 1 + exp (- a)" by simp
  then have lt: "ca < cb" unfolding ca_def cb_def using pb
    by (intro divide_strict_left_mono) (simp_all add: add_pos_pos)
  have la: "logcdf_sem reference_sem (RandomVariable ''logistic'') [] (Fin a) = Fin (ln ca)"
    using ca by (simp add: reference_sem_def logistic_cdf_def fl_log_def ca_def)
  have lb: "logcdf_sem reference_sem (RandomVariable ''logistic'') [] (Fin b) = Fin (ln cb)"
    using cb by (simp add: reference_sem_def logistic_cdf_def fl_log_def cb_def)
  have "logdiffexp_sem reference_sem (Fin (ln cb)) (Fin (ln ca)) = Fin (ln (cb - ca))"
    using ca cb lt
    by (simp add: reference_sem_def fl_log_def fl_sub_def fl_add_def fl_neg_def fl_exp_def)
  then show ?thesis unfolding la lb by (simp add: ca_def cb_def)
qed

text \<open>
  Claim C9. \<open>round_logprob\<close> snaps the observed value with the rounding function of its own
  kind before anything else: the graph it returns takes the log-CDF at the two points
  around \<open>round(value)\<close>, \<open>floor(value)\<close> or \<open>ceil(value)\<close>, its value at an observed \<open>v\<close> is the
  \<open>logdiffexp\<close> of the base log-CDF around the snapped \<open>v\<close>, a value and not an error, and
  that is the density it gives at the snapped \<open>v\<close> itself, on the grid or off it.
\<close>

theorem round_logprob_snaps_value:
  assumes own: "owner base_rv = Some (bop, ins)"
    and v: "bget (tensor_of env value) i = Inr v"
    and w: "bget (tensor_of env1 value) i = Inr w"
  shows "(scalar_op_of opr = Some RoundHalfToEven \<longrightarrow>
      round_logprob opr [value] base_rv =
        Inr (Logdiffexp (Logcdf bop ins (Add (RoundE (Leaf value)) (Lit (Fin (1 / 2)))))
                        (Logcdf bop ins (Sub (RoundE (Leaf value)) (Lit (Fin (1 / 2)))))) \<and>
      logp_at s env (round_logprob opr [value] base_rv) i =
        Inr (logdiffexp_sem s
               (logcdf_sem s (dispatch_class bop) ins (add_sem s (fl_round v) (Fin (1 / 2))))
               (logcdf_sem s (dispatch_class bop) ins (sub_sem s (fl_round v) (Fin (1 / 2))))) \<and>
      (w = fl_round v \<longrightarrow>
         logp_at s env (round_logprob opr [value] base_rv) i =
           logp_at s env1 (round_logprob opr [value] base_rv) i)) \<and>
    (scalar_op_of opr = Some Floor \<longrightarrow>
      round_logprob opr [value] base_rv =
        Inr (Logdiffexp (Logcdf bop ins (Add (FloorE (Leaf value)) (Lit (Fin 1))))
                        (Logcdf bop ins (FloorE (Leaf value)))) \<and>
      logp_at s env (round_logprob opr [value] base_rv) i =
        Inr (logdiffexp_sem s
               (logcdf_sem s (dispatch_class bop) ins (add_sem s (fl_floor v) (Fin 1)))
               (logcdf_sem s (dispatch_class bop) ins (fl_floor v))) \<and>
      (w = fl_floor v \<longrightarrow>
         logp_at s env (round_logprob opr [value] base_rv) i =
           logp_at s env1 (round_logprob opr [value] base_rv) i)) \<and>
    (scalar_op_of opr = Some Ceil \<longrightarrow>
      round_logprob opr [value] base_rv =
        Inr (Logdiffexp (Logcdf bop ins (CeilE (Leaf value)))
                        (Logcdf bop ins (Sub (CeilE (Leaf value)) (Lit (Fin 1))))) \<and>
      logp_at s env (round_logprob opr [value] base_rv) i =
        Inr (logdiffexp_sem s
               (logcdf_sem s (dispatch_class bop) ins (fl_ceil v))
               (logcdf_sem s (dispatch_class bop) ins (sub_sem s (fl_ceil v) (Fin 1)))) \<and>
      (w = fl_ceil v \<longrightarrow>
         logp_at s env (round_logprob opr [value] base_rv) i =
           logp_at s env1 (round_logprob opr [value] base_rv) i))"
proof (intro conjI impI)
  assume k: "scalar_op_of opr = Some RoundHalfToEven"
  show "round_logprob opr [value] base_rv =
        Inr (Logdiffexp (Logcdf bop ins (Add (RoundE (Leaf value)) (Lit (Fin (1 / 2)))))
                        (Logcdf bop ins (Sub (RoundE (Leaf value)) (Lit (Fin (1 / 2))))))"
    by (rule round_logprob_round [OF own k])
  show "logp_at s env (round_logprob opr [value] base_rv) i =
        Inr (logdiffexp_sem s
               (logcdf_sem s (dispatch_class bop) ins (add_sem s (fl_round v) (Fin (1 / 2))))
               (logcdf_sem s (dispatch_class bop) ins (sub_sem s (fl_round v) (Fin (1 / 2)))))"
    by (rule eval_round(1) [OF own v k])
  show "logp_at s env (round_logprob opr [value] base_rv) i =
           logp_at s env1 (round_logprob opr [value] base_rv) i" if "w = fl_round v"
    unfolding eval_round(1) [OF own v k] eval_round(1) [OF own w k] using that by simp
next
  assume k: "scalar_op_of opr = Some Floor"
  show "round_logprob opr [value] base_rv =
        Inr (Logdiffexp (Logcdf bop ins (Add (FloorE (Leaf value)) (Lit (Fin 1))))
                        (Logcdf bop ins (FloorE (Leaf value))))"
    by (rule round_logprob_floor [OF own k])
  show "logp_at s env (round_logprob opr [value] base_rv) i =
        Inr (logdiffexp_sem s
               (logcdf_sem s (dispatch_class bop) ins (add_sem s (fl_floor v) (Fin 1)))
               (logcdf_sem s (dispatch_class bop) ins (fl_floor v)))"
    by (rule eval_round(2) [OF own v k])
  show "logp_at s env (round_logprob opr [value] base_rv) i =
           logp_at s env1 (round_logprob opr [value] base_rv) i" if "w = fl_floor v"
    unfolding eval_round(2) [OF own v k] eval_round(2) [OF own w k] using that by simp
next
  assume k: "scalar_op_of opr = Some Ceil"
  show "round_logprob opr [value] base_rv =
        Inr (Logdiffexp (Logcdf bop ins (CeilE (Leaf value)))
                        (Logcdf bop ins (Sub (CeilE (Leaf value)) (Lit (Fin 1)))))"
    by (rule round_logprob_ceil [OF own k])
  show "logp_at s env (round_logprob opr [value] base_rv) i =
        Inr (logdiffexp_sem s
               (logcdf_sem s (dispatch_class bop) ins (fl_ceil v))
               (logcdf_sem s (dispatch_class bop) ins (sub_sem s (fl_ceil v) (Fin 1))))"
    by (rule eval_round(3) [OF own v k])
  show "logp_at s env (round_logprob opr [value] base_rv) i =
           logp_at s env1 (round_logprob opr [value] base_rv) i" if "w = fl_ceil v"
    unfolding eval_round(3) [OF own v k] eval_round(3) [OF own w k] using that by simp
qed

text \<open>
  The off-grid value 2.5 has, under round-to-even, the density of the grid point 2, the log
  of the logistic mass between 1.5 and 2.5: a finite number. The off-grid values 2.5
  (floor) and 1.5 (ceil) have the density of the grid point 2 as well.
\<close>

theorem round_logprob_snaps_value_witness:
  "logp_at reference_sem (env_of [(10, [Fin (5 / 2)])])
     (round_logprob (MeasurableRound RoundHalfToEven) [value_var 10 ''xr''] x_rv) 0 =
     Inr (Fin (ln (1 / (1 + exp (- (5 / 2))) - 1 / (1 + exp (- (3 / 2)))))) \<and>
   logp_at reference_sem (env_of [(10, [Fin (5 / 2)])])
     (round_logprob (MeasurableRound RoundHalfToEven) [value_var 10 ''xr''] x_rv) 0 =
   logp_at reference_sem (env_of [(10, [Fin 2])])
     (round_logprob (MeasurableRound RoundHalfToEven) [value_var 10 ''xr''] x_rv) 0 \<and>
   logp_at reference_sem (env_of [(10, [Fin (5 / 2)])])
     (round_logprob (MeasurableRound Floor) [value_var 10 ''xr''] x_rv) 0 =
   logp_at reference_sem (env_of [(10, [Fin 2])])
     (round_logprob (MeasurableRound Floor) [value_var 10 ''xr''] x_rv) 0 \<and>
   logp_at reference_sem (env_of [(10, [Fin (3 / 2)])])
     (round_logprob (MeasurableRound Ceil) [value_var 10 ''xr''] x_rv) 0 =
   logp_at reference_sem (env_of [(10, [Fin 2])])
     (round_logprob (MeasurableRound Ceil) [value_var 10 ''xr''] x_rv) 0"
proof -
  have own: "owner x_rv = Some (RandomVariable ''logistic'', [])"
    by (simp add: ex_defs)
  have v: "bget (tensor_of (env_of [(10, [Fin (5 / 2)])]) (value_var 10 ''xr'')) 0 =
      Inr (Fin (5 / 2))"
    by (simp add: ex_defs bget_def)
  have u: "bget (tensor_of (env_of [(10, [Fin (3 / 2)])]) (value_var 10 ''xr'')) 0 =
      Inr (Fin (3 / 2))"
    by (simp add: ex_defs bget_def)
  have w: "bget (tensor_of (env_of [(10, [Fin 2])]) (value_var 10 ''xr'')) 0 = Inr (Fin 2)"
    by (simp add: ex_defs bget_def)
  have fl52: "\<lfloor>5 / 2 :: real\<rfloor> = 2" by (simp add: floor_eq_iff)
  have ce32: "\<lceil>3 / 2 :: real\<rceil> = 2" by (simp add: ceiling_eq_iff)
  have snap: "Fin 2 = fl_round (Fin (5 / 2))" "Fin 2 = fl_floor (Fin (5 / 2))"
    "Fin 2 = fl_ceil (Fin (3 / 2))"
    by (simp_all add: fl_round_def fl_floor_def fl_ceil_def round_half_even_def fl52 ce32)
  have k: "scalar_op_of (MeasurableRound RoundHalfToEven) = Some RoundHalfToEven"
    "scalar_op_of (MeasurableRound Floor) = Some Floor"
    "scalar_op_of (MeasurableRound Ceil) = Some Ceil"
    by simp_all
  note r = round_logprob_snaps_value [OF own v w, of "MeasurableRound RoundHalfToEven" reference_sem]
  note f = round_logprob_snaps_value [OF own v w, of "MeasurableRound Floor" reference_sem]
  note c = round_logprob_snaps_value [OF own u w, of "MeasurableRound Ceil" reference_sem]
  have ar: "add_sem reference_sem (Fin 2) (Fin (1 / 2)) = Fin (5 / 2)"
    "sub_sem reference_sem (Fin 2) (Fin (1 / 2)) = Fin (3 / 2)"
    by (simp_all add: reference_sem_def fl_add_def fl_sub_def fl_neg_def)
  have "logp_at reference_sem (env_of [(10, [Fin (5 / 2)])])
     (round_logprob (MeasurableRound RoundHalfToEven) [value_var 10 ''xr''] x_rv) 0 =
     Inr (logdiffexp_sem reference_sem
            (logcdf_sem reference_sem (dispatch_class (RandomVariable ''logistic'')) []
               (add_sem reference_sem (fl_round (Fin (5 / 2))) (Fin (1 / 2))))
            (logcdf_sem reference_sem (dispatch_class (RandomVariable ''logistic'')) []
               (sub_sem reference_sem (fl_round (Fin (5 / 2))) (Fin (1 / 2)))))"
    using r k(1) by blast
  then have a1: "logp_at reference_sem (env_of [(10, [Fin (5 / 2)])])
     (round_logprob (MeasurableRound RoundHalfToEven) [value_var 10 ''xr''] x_rv) 0 =
     Inr (Fin (ln (1 / (1 + exp (- (5 / 2))) - 1 / (1 + exp (- (3 / 2))))))"
    unfolding snap(1) [symmetric] ar
    using reference_logistic_interval [of "3 / 2" "5 / 2"] by simp
  have a2: "logp_at reference_sem (env_of [(10, [Fin (5 / 2)])])
     (round_logprob (MeasurableRound RoundHalfToEven) [value_var 10 ''xr''] x_rv) 0 =
   logp_at reference_sem (env_of [(10, [Fin 2])])
     (round_logprob (MeasurableRound RoundHalfToEven) [value_var 10 ''xr''] x_rv) 0"
    using r k(1) snap(1) by blast
  have a3: "logp_at reference_sem (env_of [(10, [Fin (5 / 2)])])
     (round_logprob (MeasurableRound Floor) [value_var 10 ''xr''] x_rv) 0 =
   logp_at reference_sem (env_of [(10, [Fin 2])])
     (round_logprob (MeasurableRound Floor) [value_var 10 ''xr''] x_rv) 0"
    using f k(2) snap(2) by blast
  have a4: "logp_at reference_sem (env_of [(10, [Fin (3 / 2)])])
     (round_logprob (MeasurableRound Ceil) [value_var 10 ''xr''] x_rv) 0 =
   logp_at reference_sem (env_of [(10, [Fin 2])])
     (round_logprob (MeasurableRound Ceil) [value_var 10 ''xr''] x_rv) 0"
    using c k(3) snap(3) by blast
  from a1 a2 a3 a4 show ?thesis by blast
qed

section \<open>The clip matcher\<close>

lemmas graph_defs = graph_with_def node_of_def at_clip_def at_elemwise_def reference_ext_def
  same_object_def


text \<open>The inputs of a new node: as they are when they have the rank of the node, wrapped otherwise.\<close>

lemma dimshuffle_same_rank [simp]: "ndim v = t \<Longrightarrow> dimshuffle_to k t v = v"
  by (simp add: dimshuffle_to_def)


lemma enumerate_one: "enumerate 0 [a] = [(0, a)]"
  by simp

lemma enumerate_three: "enumerate 0 [a, b, c] = [(0, a), (Suc 0, b), (Suc (Suc 0), c)]"
  by simp

lemma owner_new_node1 [simp]:
  "owner (set_name (make_node_output x k opr [a]) nm) = Some (opr, [a])"
  by (simp add: set_name_def make_node_output_def owner_def Let_def)



lemma name_new_node [simp]:
  "name (set_name (make_node_output x k opr ins) nm) = nm"
  by (simp add: set_name_def make_node_output_def Let_def)

lemma unmeasurable_copy [simp]:
  "owner base = Some (bop, ins) \<Longrightarrow>
     owner (assign_custom_measurable_outputs k base) = Some (Unmeasurable bop, ins)"
  "dtype (assign_custom_measurable_outputs k base) = dtype base"
  "ndim (assign_custom_measurable_outputs k base) = ndim base"
  by (simp_all add: assign_custom_measurable_outputs_def owner_def)

lemma sentinels [simp]:
  "\<not> is_lower_bounded (at_constant x k NInf)"
  "\<not> is_upper_bounded (at_constant x k PInf)"
  "is_TensorConstant (at_constant x k c)"
  "const_value (at_constant x k c) = [c]"
  "ndim (at_constant x k c) = 0"
  "tensor_of env (at_constant x k c) = [c]"
  by (simp_all add: at_constant_def is_lower_bounded_def is_upper_bounded_def
      is_TensorConstant_def const_value_def isinf_def isneginf_def)











section \<open>Eligibility\<close>

lemma clips_only_if:
  assumes "find_measurable_clips x fresh fg nd = Inr (Some rs)"
  shows "\<exists>f base lo up bop ins.
     preserve_rv_mappings fg = Some f \<and> node_inputs nd = [base, lo, up] \<and>
     owner base = Some (bop, ins) \<and> measurable x bop \<and> rv_values f (ident base) = None"
  using assms
  by (auto simp: find_measurable_clips_def Let_def
      split: option.splits if_splits list.splits)

lemma clips_rejects:
  assumes "node_inputs nd = [base, lo, up]" and "node_outputs nd \<noteq> []"
    and "\<not> (\<exists>f bop ins. preserve_rv_mappings fg = Some f \<and> owner base = Some (bop, ins) \<and>
            measurable x bop \<and> rv_values f (ident base) = None)"
  shows "find_measurable_clips x fresh fg nd = Inr None"
  using assms
  by (auto simp: find_measurable_clips_def Let_def
      split: option.splits if_splits list.splits)

lemma roundings_only_if:
  assumes "find_measurable_roundings x fresh fg nd = Inr (Some rs)"
  shows "\<exists>f base bop ins.
     preserve_rv_mappings fg = Some f \<and> node_inputs nd = [base] \<and>
     owner base = Some (bop, ins) \<and> measurable x bop \<and> rv_values f (ident base) = None \<and>
     startswith (dtype base) ''float''"
  using assms
  by (auto simp: find_measurable_roundings_def Let_def
      split: option.splits if_splits list.splits)

lemma roundings_rejects:
  assumes "node_inputs nd = [base]" and "node_outputs nd = [out]"
    and "\<not> (\<exists>f bop ins. preserve_rv_mappings fg = Some f \<and> owner base = Some (bop, ins) \<and>
            measurable x bop \<and> rv_values f (ident base) = None \<and>
            startswith (dtype base) ''float'')"
  shows "find_measurable_roundings x fresh fg nd = Inr None"
  using assms
  by (auto simp: find_measurable_roundings_def Let_def
      split: option.splits if_splits list.splits)

lemma startswith_int_not_float:
  "startswith d ''int'' \<Longrightarrow> \<not> startswith d ''float''"
  by (cases d) (auto simp: startswith_def)

text \<open>
  Claim C8. \<open>find_measurable_roundings\<close> proposes a rewrite only if the base input is
  produced by a measurable node, has no observed value in the value mapping and has a
  dtype whose name starts with \<open>float\<close>; a base of any other dtype, an integer one in
  particular, is never rewritten, and on a node with one input and one output the answer
  is then \<open>None\<close>.
\<close>

theorem find_measurable_roundings_eligibility:
  "(find_measurable_roundings x fresh fg nd = Inr (Some rs) \<longrightarrow>
      (\<exists>f base bop ins.
         preserve_rv_mappings fg = Some f \<and> node_inputs nd = [base] \<and>
         owner base = Some (bop, ins) \<and> measurable x bop \<and>
         rv_values f (ident base) = None \<and> startswith (dtype base) ''float'')) \<and>
   (node_inputs nd = [base] \<and> \<not> startswith (dtype base) ''float'' \<longrightarrow>
      find_measurable_roundings x fresh fg nd \<noteq> Inr (Some rs)) \<and>
   (node_inputs nd = [base] \<and> node_outputs nd = [out] \<and> startswith (dtype base) ''int'' \<longrightarrow>
      find_measurable_roundings x fresh fg nd = Inr None)"
proof (intro conjI impI)
  assume "find_measurable_roundings x fresh fg nd = Inr (Some rs)"
  then show "\<exists>f base bop ins.
         preserve_rv_mappings fg = Some f \<and> node_inputs nd = [base] \<and>
         owner base = Some (bop, ins) \<and> measurable x bop \<and>
         rv_values f (ident base) = None \<and> startswith (dtype base) ''float''"
    by (rule roundings_only_if)
next
  assume a: "node_inputs nd = [base] \<and> \<not> startswith (dtype base) ''float''"
  show "find_measurable_roundings x fresh fg nd \<noteq> Inr (Some rs)"
  proof
    assume "find_measurable_roundings x fresh fg nd = Inr (Some rs)"
    from roundings_only_if [OF this] a show False by auto
  qed
next
  assume a: "node_inputs nd = [base] \<and> node_outputs nd = [out] \<and> startswith (dtype base) ''int''"
  then have "\<not> startswith (dtype base) ''float''" by (simp add: startswith_int_not_float)
  with a show "find_measurable_roundings x fresh fg nd = Inr None"
    by (intro roundings_rejects [of nd base out]) auto
qed

text \<open>The floor of the discrete variable is left alone; the floor of the continuous one is rewritten.\<close>

theorem find_measurable_roundings_eligibility_witness:
  "find_measurable_roundings reference_ext 100
     (graph_with [(at_elemwise 8 ''nr'' Floor n_rv, value_var 10 ''nr'')])
     (node_of (at_elemwise 8 ''nr'' Floor n_rv)) = Inr None \<and>
   (case find_measurable_roundings reference_ext 100
     (graph_with [(at_elemwise 9 ''xr'' Floor x_rv, value_var 10 ''xr'')])
     (node_of (at_elemwise 9 ''xr'' Floor x_rv)) of
      Inr (Some [rv]) \<Rightarrow> owner rv =
        Some (MeasurableRound Floor, [assign_custom_measurable_outputs 100 x_rv]) \<and>
        startswith (dtype x_rv) ''float''
    | _ \<Rightarrow> False)"
proof -
  let ?n = "at_elemwise 8 ''nr'' Floor n_rv"
  have nd: "node_inputs (node_of ?n) = [n_rv] \<and> node_outputs (node_of ?n) = [?n] \<and>
      startswith (dtype n_rv) ''int''"
    by (simp add: graph_defs owner_def ex_defs)
  from find_measurable_roundings_eligibility [of reference_ext 100
      "graph_with [(?n, value_var 10 ''nr'')]" "node_of ?n" "[]" n_rv ?n] nd
  have a: "find_measurable_roundings reference_ext 100
     (graph_with [(?n, value_var 10 ''nr'')]) (node_of ?n) = Inr None"
    by blast
  have b: "find_measurable_roundings reference_ext 100
     (graph_with [(at_elemwise 9 ''xr'' Floor x_rv, value_var 10 ''xr'')])
     (node_of (at_elemwise 9 ''xr'' Floor x_rv)) =
     Inr (Some [set_name (make_node_output reference_ext 101 (MeasurableRound Floor)
        [assign_custom_measurable_outputs 100 x_rv]) (Some ''xr'')])"
    by (simp add: find_measurable_roundings_def graph_defs ex_defs
        valid_scalar_types_MeasurableRound_def Let_def)
  have c: "startswith (dtype x_rv) ''float''" by (simp add: ex_defs)
  show ?thesis unfolding a b using c by simp
qed

section \<open>The ownership conflict\<close>

lemma rewrite_rv_random_variable:
  assumes "owner rv = Some (RandomVariable nm, ins)"
  shows "rewrite_rv x fg fresh rv = Inr rv"
  using assms
  by (simp add: rewrite_rv_def find_measurable_clips_def find_measurable_roundings_def Let_def
      split: option.splits)

lemma rewrite_rv_observed_base:
  assumes own: "owner cens = Some (Elemwise Clip, [base, lo, up])"
    and fg: "preserve_rv_mappings fg = Some f"
    and obs: "rv_values f (ident base) = Some bv"
  shows "rewrite_rv x fg fresh cens = Inr cens"
proof -
  let ?nd = "\<lparr>node_op = Elemwise Clip, node_inputs = [base, lo, up], node_outputs = [cens]\<rparr>"
  have c: "find_measurable_clips x fresh fg ?nd = Inr None"
    using obs fg by (intro clips_rejects [of ?nd base lo up]) auto
  have r: "find_measurable_roundings x fresh fg ?nd = Inr None"
    using fg by (simp add: find_measurable_roundings_def valid_scalar_types_MeasurableRound_def)
  show ?thesis
    using own c r by (simp add: rewrite_rv_def Let_def)
qed

text \<open>
  Claim C7. \<open>find_measurable_clips\<close> proposes a rewrite only if the base input is produced
  by a measurable node and has no observed value in the value mapping; on a node with three
  inputs and an output it otherwise returns \<open>None\<close>, not an error. So when a random variable
  and a clip of it are both observed, the clip node is left as it is, and the driver (as
  modelled from the spec) fails with the could-not-be-derived error that names the clipped
  variable, in whichever order the two are listed.
\<close>

theorem find_measurable_clips_eligibility:
  "(find_measurable_clips x fresh fg nd = Inr (Some rs) \<longrightarrow>
      (\<exists>f base lo up bop ins.
         preserve_rv_mappings fg = Some f \<and> node_inputs nd = [base, lo, up] \<and>
         owner base = Some (bop, ins) \<and> measurable x bop \<and>
         rv_values f (ident base) = None)) \<and>
   (node_inputs nd = [base, lo, up] \<and> node_outputs nd \<noteq> [] \<and>
    \<not> (\<exists>f bop ins. preserve_rv_mappings fg = Some f \<and> owner base = Some (bop, ins) \<and>
          measurable x bop \<and> rv_values f (ident base) = None) \<longrightarrow>
      find_measurable_clips x fresh fg nd = Inr None) \<and>
   (owner cens = Some (Elemwise Clip, [rv, lo, up]) \<and> owner rv = Some (RandomVariable nm, ins) \<and>
    measurable x (RandomVariable nm) \<and> \<not> measurable x (Elemwise Clip) \<longrightarrow>
      factorized_joint_logprob x fresh [(cens, cv), (rv, bv)] =
        Inl (CouldNotBeDerived [name cens]) \<and>
      factorized_joint_logprob x fresh [(rv, bv), (cens, cv)] =
        Inl (CouldNotBeDerived [name cens]))"
proof (intro conjI impI)
  assume "find_measurable_clips x fresh fg nd = Inr (Some rs)"
  then show "\<exists>f base lo up bop ins.
         preserve_rv_mappings fg = Some f \<and> node_inputs nd = [base, lo, up] \<and>
         owner base = Some (bop, ins) \<and> measurable x bop \<and>
         rv_values f (ident base) = None"
    by (rule clips_only_if)
next
  assume "node_inputs nd = [base, lo, up] \<and> node_outputs nd \<noteq> [] \<and>
    \<not> (\<exists>f bop ins. preserve_rv_mappings fg = Some f \<and> owner base = Some (bop, ins) \<and>
          measurable x bop \<and> rv_values f (ident base) = None)"
  then show "find_measurable_clips x fresh fg nd = Inr None"
    by (intro clips_rejects [of nd base lo up]) auto
next
  assume a: "owner cens = Some (Elemwise Clip, [rv, lo, up]) \<and>
    owner rv = Some (RandomVariable nm, ins) \<and>
    measurable x (RandomVariable nm) \<and> \<not> measurable x (Elemwise Clip)"
  have keep: "rewrite_rv x fg k rv = Inr rv" for fg k
    using a by (intro rewrite_rv_random_variable [of rv nm ins]) simp
  have m: "carries_measurable x rv" "\<not> carries_measurable x cens"
    using a by (simp_all add: carries_measurable_def)
  let ?f1 = "\<lparr>rv_values = map_of (map (\<lambda>(rv, vv). (ident rv, vv)) [(cens, cv), (rv, bv)])\<rparr>"
  let ?g1 = "\<lparr>preserve_rv_mappings = Some ?f1\<rparr>"
  have "\<exists>w. rv_values ?f1 (ident rv) = Some w" by simp
  then obtain w1 where "rv_values ?f1 (ident rv) = Some w1" ..
  then have c1: "rewrite_rv x ?g1 k cens = Inr cens" for k
    using a by (intro rewrite_rv_observed_base [of cens rv lo up ?g1 ?f1 w1]) simp_all
  show "factorized_joint_logprob x fresh [(cens, cv), (rv, bv)] =
        Inl (CouldNotBeDerived [name cens])"
    unfolding factorized_joint_logprob_def Let_def
    by (simp only: rewrite_all.simps c1 keep sum.case) (simp add: m)
  let ?f2 = "\<lparr>rv_values = map_of (map (\<lambda>(rv, vv). (ident rv, vv)) [(rv, bv), (cens, cv)])\<rparr>"
  let ?g2 = "\<lparr>preserve_rv_mappings = Some ?f2\<rparr>"
  have "rv_values ?f2 (ident rv) = Some bv" by simp
  then have c2: "rewrite_rv x ?g2 k cens = Inr cens" for k
    using a by (intro rewrite_rv_observed_base [of cens rv lo up ?g2 ?f2 bv]) simp_all
  show "factorized_joint_logprob x fresh [(rv, bv), (cens, cv)] =
        Inl (CouldNotBeDerived [name cens])"
    unfolding factorized_joint_logprob_def Let_def
    by (simp only: rewrite_all.simps c2 keep sum.case) (simp add: m)
qed

text \<open>The test \<open>test_fail_base_and_clip_have_values\<close>.\<close>

theorem find_measurable_clips_eligibility_witness:
  "factorized_joint_logprob reference_ext 100
     [(at_clip 5 ''cens_x'' x_rv x_rv (num 4 [Fin 1]), value_var 10 ''cens_x''),
      (x_rv, value_var 11 ''x'')] = Inl (CouldNotBeDerived [Some ''cens_x'']) \<and>
   find_measurable_clips reference_ext 100
     (graph_with [(at_clip 5 ''cens_x'' x_rv x_rv (num 4 [Fin 1]), value_var 10 ''cens_x''),
      (x_rv, value_var 11 ''x'')])
     (node_of (at_clip 5 ''cens_x'' x_rv x_rv (num 4 [Fin 1]))) = Inr None"
proof -
  let ?c = "at_clip 5 ''cens_x'' x_rv x_rv (num 4 [Fin 1])"
  let ?obs = "[(?c, value_var 10 ''cens_x''), (x_rv, value_var 11 ''x'')]"
  have h: "owner ?c = Some (Elemwise Clip, [x_rv, x_rv, num 4 [Fin 1]]) \<and>
      owner x_rv = Some (RandomVariable ''logistic'', []) \<and>
      measurable reference_ext (RandomVariable ''logistic'') \<and>
      \<not> measurable reference_ext (Elemwise Clip)"
    by (simp add: graph_defs ex_defs)
  have n: "name ?c = Some ''cens_x''" by (simp add: graph_defs)
  have nd: "node_inputs (node_of ?c) = [x_rv, x_rv, num 4 [Fin 1]] \<and>
      node_outputs (node_of ?c) \<noteq> [] \<and>
      \<not> (\<exists>f bop ins. preserve_rv_mappings (graph_with ?obs) = Some f \<and>
            owner x_rv = Some (bop, ins) \<and> measurable reference_ext bop \<and>
            rv_values f (ident x_rv) = None)"
    by (auto simp: graph_defs ex_defs)
  note inst = find_measurable_clips_eligibility [of reference_ext 100 "graph_with ?obs"
      "node_of ?c" "[]" x_rv x_rv "num 4 [Fin 1]" ?c x_rv "''logistic''" "[]"
      "value_var 10 ''cens_x''" "value_var 11 ''x''"]
  from inst h n have a: "factorized_joint_logprob reference_ext 100 ?obs =
      Inl (CouldNotBeDerived [Some ''cens_x''])"
    by (simp del: One_nat_def)
  from inst nd have b: "find_measurable_clips reference_ext 100 (graph_with ?obs) (node_of ?c) =
      Inr None"
    by blast
  from a b show ?thesis by blast
qed

end
